theory Spec2Isabelle
  imports Main
begin

section \<open>Field Normalizer (src/lib/formatter.ts and the formatters of the JS handler)\<close>

text \<open>
  The repository holds three variants of the scraper: the self-contained JavaScript
  handler (suffix \<open>_js\<close> below; it has its own copies of the formatters), the
  multi-strategy TypeScript library (suffix \<open>_ts\<close>) and the single-request TypeScript
  library \<open>src/lib/tiktok-scraper.ts\<close> (suffix \<open>_lib\<close>). Both TypeScript variants
  import \<open>src/lib/formatter.ts\<close>, whose functions keep their plain names here.

  Numbers are modelled as integers: the counts, sizes and timestamps the code handles
  are integral. A JavaScript number is a double, so an integer argument stands for a
  Number value only when a double holds it exactly; that is every integer of magnitude
  up to \<open>2 ^ 53\<close> (the safe integers and their bound), and beyond it the fixed points
  of \<open>nearest_double\<close> below. Strings are lists of 8-bit characters.
\<close>

subsection \<open>Decimal rendering\<close>

definition digit_char :: "nat \<Rightarrow> char" where
  "digit_char d = ''0123456789'' ! d"

fun digits :: "nat \<Rightarrow> string" where
  "digits n = (if n < 10 then [digit_char n] else digits (n div 10) @ [digit_char (n mod 10)])"

declare digits.simps [simp del]

subsection \<open>Doubles and division\<close>

text \<open>
  \<open>num / 1000\<close> is one IEEE-754 binary64 division: the result is the double nearest
  to the exact quotient, ties to the even significand. A positive double is kept as a
  pair \<open>(m, e)\<close> that stands for \<open>m * 2 ^ e\<close>, with \<open>2 ^ 52 \<le> m \<le> 2 ^ 53\<close>. All the
  arithmetic below is exact integer arithmetic. (Subnormal results do not arise, the
  quotients formed by \<open>formatNumber\<close> being at least 1; overflow to \<open>Infinity\<close>, from
  \<open>2 ^ 1024\<close> on, is not modelled.)
\<close>

type_synonym double = "int \<times> int"

fun lg2 :: "nat \<Rightarrow> nat" where
  "lg2 n = (if n < 2 then 0 else Suc (lg2 (n div 2)))"

declare lg2.simps [simp del]

text \<open>The binary exponent of the quotient \<open>n / d\<close>: the \<open>L\<close> with \<open>2 ^ L \<le> n / d < 2 ^ (L + 1)\<close>.\<close>

definition floor_log2_quot :: "int \<Rightarrow> int \<Rightarrow> int" where
  "floor_log2_quot n d = (if d \<le> n then int (lg2 (nat (n div d)))
                         else - (int (lg2 (nat ((d - 1) div n))) + 1))"

text \<open>The integer nearest to \<open>a / b\<close>, ties to even.\<close>

definition round_half_even_quot :: "int \<Rightarrow> int \<Rightarrow> int" where
  "round_half_even_quot a b = (let q = a div b; r = a mod b in
     if 2 * r < b then q else if b < 2 * r then q + 1 else if even q then q else q + 1)"

definition double_div :: "int \<Rightarrow> int \<Rightarrow> double" where
  "double_div n d = (let e = floor_log2_quot n d - 52 in
     (if 0 \<le> e then round_half_even_quot n (d * 2 ^ nat e)
      else round_half_even_quot (n * 2 ^ nat (- e)) d, e))"

text \<open>
  The double nearest to a non-negative integer \<open>v\<close>, ties to even, as an integer (from
  \<open>2 ^ 53\<close> on every double is one). An integer stands for a Number value exactly when
  \<open>nearest_double\<close> leaves it alone.
\<close>

definition nearest_double :: "int \<Rightarrow> int" where
  "nearest_double v = (if v < 2 ^ 53 then v
     else (let u = 2 ^ (lg2 (nat v) - 52) in round_half_even_quot v u * u))"

subsection \<open>\<open>Number.prototype.toString\<close>\<close>

text \<open>
  ECMAScript, Number::toString, for radix 10 and a positive \<open>x\<close>: let \<open>n\<close>, \<open>k\<close> and
  \<open>s\<close> be integers with \<open>10 ^ (k - 1) \<le> s < 10 ^ k\<close>, such that \<open>s * 10 ^ (n - k)\<close>
  converts to the double \<open>x\<close> and \<open>k\<close> is as small as possible; among several such
  \<open>s\<close> the one nearest to \<open>x\<close> is taken, the even one on a tie. For an integer \<open>x\<close>
  of \<open>nd\<close> digits, \<open>shortest_digits x nd k\<close> tries \<open>k, k + 1, \<dots>\<close> digits: since
  conversion to a double is monotone, only the two \<open>k\<close>-digit candidates around \<open>x\<close>
  need to be tried. The result is \<open>(s, k, n)\<close>.
\<close>

function shortest_digits :: "int \<Rightarrow> nat \<Rightarrow> nat \<Rightarrow> int \<times> nat \<times> nat" where
  "shortest_digits x nd k =
     (if nd \<le> k then (x, nd, nd)
      else (let p = 10 ^ (nd - k); lo = x div p; hi = lo + 1;
                lo_ok = (nearest_double (lo * p) = x);
                hi_ok = (nearest_double (hi * p) = x);
                lo_nearer = (x - lo * p < hi * p - x \<or> (x - lo * p = hi * p - x \<and> even lo));
                upper = (if hi = 10 ^ k then (1, 1, nd + 1) else (hi, k, nd))
            in if lo_ok \<and> hi_ok then (if lo_nearer then (lo, k, nd) else upper)
               else if lo_ok then (lo, k, nd)
               else if hi_ok then upper
               else shortest_digits x nd (k + 1)))"
  by pat_completeness auto

termination shortest_digits
  by (relation "measure (\<lambda>(x, nd, k). nd - k)") auto

declare shortest_digits.simps [simp del]

text \<open>
  The digits are then laid out: up to \<open>n = 21\<close> as the digits of \<open>s\<close> followed by
  \<open>n - k\<close> zeros, and from \<open>n = 22\<close> on (that is from \<open>10 ^ 21\<close> on) in exponent
  notation. Below \<open>2 ^ 53\<close> every integer is a Number value, so no shorter digit string
  converts to \<open>x\<close> than the digits of \<open>x\<close> with its final zeros dropped, and the result
  is the decimal digits of \<open>x\<close>.
\<close>

definition Number_toString_positive :: "int \<Rightarrow> string" where
  "Number_toString_positive x =
     (if x < 2 ^ 53 then digits (nat x)
      else (case shortest_digits x (length (digits (nat x))) 1 of (s, k, n) \<Rightarrow>
        if n \<le> 21 then digits (nat s) @ replicate (n - k) CHR ''0''
        else if k = 1 then digits (nat s) @ ''e+'' @ digits (n - 1)
        else take 1 (digits (nat s)) @ ''.'' @ drop 1 (digits (nat s)) @ ''e+'' @ digits (n - 1)))"

definition Number_toString :: "int \<Rightarrow> string" where
  "Number_toString n = (if n < 0 then CHR ''-'' # Number_toString_positive (- n)
                        else Number_toString_positive n)"

subsection \<open>\<open>toFixed(1)\<close>\<close>

text \<open>
  \<open>x.toFixed(1)\<close> (ECMAScript, Number.prototype.toFixed) for a positive \<open>x\<close>: from
  \<open>10 ^ 21\<close> on the result is \<open>ToString(x)\<close>. Below, let \<open>t\<close> be the integer for
  which \<open>t / 10 - x\<close> is as close to zero as possible, the larger one if there are two;
  that is \<open>t = \<lfloor>10 * x + 1/2\<rfloor>\<close>, computed on the exact value of the double. The
  result is the decimal digits of \<open>t\<close> with a point before the last one.
\<close>

definition tenths :: "double \<Rightarrow> nat" where
  "tenths x = (case x of (m, e) \<Rightarrow>
     nat (if 0 \<le> e then (20 * (m * 2 ^ nat e) + 1) div 2
          else (20 * m + 2 ^ nat (- e)) div (2 * 2 ^ nat (- e))))"

definition toFixed1 :: "double \<Rightarrow> string" where
  "toFixed1 x = (case x of (m, e) \<Rightarrow>
     if 0 \<le> e \<and> 10 ^ 21 \<le> m * 2 ^ nat e then Number_toString (m * 2 ^ nat e)
     else (let t = tenths x in digits (t div 10) @ ''.'' @ [digit_char (t mod 10)]))"

text \<open>\<open>s.replace(/\.0$/, '')\<close>: a final \<open>.0\<close> is removed.\<close>

definition strip_dot0 :: "string \<Rightarrow> string" where
  "strip_dot0 s = (if 2 \<le> length s \<and> drop (length s - 2) s = ''.0''
                   then take (length s - 2) s else s)"

subsection \<open>formatNumber\<close>

definition formatNumber :: "int \<Rightarrow> string" where
  "formatNumber num =
     (if 1000000 \<le> num then strip_dot0 (toFixed1 (double_div num 1000000)) @ ''m''
      else if 1000 \<le> num then strip_dot0 (toFixed1 (double_div num 1000)) @ ''k''
      else Number_toString num)"

text \<open>
  The JS handler's \<open>formatNumber\<close> receives whatever the upstream record holds under a
  statistics key. The values it may meet are modelled by \<open>jsval\<close>: the JSON scalars,
  \<open>undefined\<close> for an absent key, and \<open>NaN\<close>, which \<open>parseInt\<close> produces. (An array
  or an object under a statistics key is not modelled.)
\<close>

datatype jsval = JUndefined | JNull | JBool bool | JNum int | JNaN | JStr string

definition truthy :: "jsval \<Rightarrow> bool" where
  "truthy v = (case v of JUndefined \<Rightarrow> False | JNull \<Rightarrow> False | JBool b \<Rightarrow> b
               | JNum n \<Rightarrow> n \<noteq> 0 | JNaN \<Rightarrow> False | JStr s \<Rightarrow> s \<noteq> [])"

definition ToString :: "jsval \<Rightarrow> string" where
  "ToString v = (case v of JUndefined \<Rightarrow> ''undefined'' | JNull \<Rightarrow> ''null''
                 | JBool b \<Rightarrow> (if b then ''true'' else ''false'')
                 | JNum n \<Rightarrow> Number_toString n | JNaN \<Rightarrow> ''NaN'' | JStr s \<Rightarrow> s)"

definition is_digit :: "char \<Rightarrow> bool" where
  "is_digit c = (c \<in> set ''0123456789'')"

definition is_hex_digit :: "char \<Rightarrow> bool" where
  "is_hex_digit c = (c \<in> set ''0123456789abcdefABCDEF'')"

text \<open>White space of the string-to-number grammar, among the 8-bit characters.\<close>

definition is_white_space :: "char \<Rightarrow> bool" where
  "is_white_space c = (c \<in> set [CHR 0x09, CHR 0x0A, CHR 0x0B, CHR 0x0C, CHR 0x0D, CHR 0x20, CHR 0xA0])"

text \<open>The value of a digit is its place among the digits of radix 16, in either case.\<close>

definition place :: "char \<Rightarrow> string \<Rightarrow> nat" where
  "place c s = length (takeWhile (\<lambda>d. d \<noteq> c) s)"

definition digit_value :: "char \<Rightarrow> int" where
  "digit_value c = int (if c \<in> set ''0123456789abcdef'' then place c ''0123456789abcdef''
                        else place c ''0123456789ABCDEF'')"

definition radix_value :: "int \<Rightarrow> string \<Rightarrow> int" where
  "radix_value r z = foldl (\<lambda>acc c. acc * r + digit_value c) 0 z"

text \<open>
  \<open>parseInt(string)\<close> without a radix: leading white space is skipped, a sign is read, a
  \<open>0x\<close> prefix selects radix 16, and the longest prefix of digits is the value, as a
  Number (the double nearest to it); with no digit the result is \<open>NaN\<close> (\<open>None\<close>).
\<close>

definition parseInt_string :: "string \<Rightarrow> int option" where
  "parseInt_string s =
     (let s1 = dropWhile is_white_space s;
          sign = (if take 1 s1 = ''-'' then - 1 else 1);
          s2 = (if take 1 s1 = ''-'' \<or> take 1 s1 = ''+'' then drop 1 s1 else s1);
          hex = (take 2 s2 = ''0x'' \<or> take 2 s2 = ''0X'');
          z = (if hex then takeWhile is_hex_digit (drop 2 s2) else takeWhile is_digit s2)
      in if z = [] then None
         else Some (sign * nearest_double (radix_value (if hex then 16 else 10) z)))"

definition parseInt :: "jsval \<Rightarrow> int option" where
  "parseInt v = parseInt_string (ToString v)"

text \<open>
  \<open>isNaN(v)\<close> converts with \<open>ToNumber\<close>. A string converts to a number exactly when,
  white space trimmed, it is empty, a signed decimal literal (with optional fraction and
  exponent), \<open>Infinity\<close>, or an unsigned binary, octal or hexadecimal literal.
\<close>

definition is_exponent_part :: "string \<Rightarrow> bool" where
  "is_exponent_part s =
     (s = [] \<or>
      ((take 1 s = ''e'' \<or> take 1 s = ''E'') \<and>
       (let t = drop 1 s; u = (if take 1 t = ''+'' \<or> take 1 t = ''-'' then drop 1 t else t)
        in u \<noteq> [] \<and> list_all is_digit u)))"

definition is_unsigned_decimal :: "string \<Rightarrow> bool" where
  "is_unsigned_decimal s =
     (s = ''Infinity'' \<or>
      (let ip = takeWhile is_digit s; r1 = dropWhile is_digit s;
           dot = (take 1 r1 = ''.'');
           fp = (if dot then takeWhile is_digit (drop 1 r1) else []);
           r2 = (if dot then dropWhile is_digit (drop 1 r1) else r1)
       in (ip \<noteq> [] \<or> fp \<noteq> []) \<and> is_exponent_part r2))"

definition is_non_decimal :: "string \<Rightarrow> bool" where
  "is_non_decimal s =
     (let p = take 2 s; z = drop 2 s in z \<noteq> [] \<and>
        ((p = ''0x'' \<or> p = ''0X'') \<and> list_all is_hex_digit z \<or>
         (p = ''0o'' \<or> p = ''0O'') \<and> list_all (\<lambda>c. c \<in> set ''01234567'') z \<or>
         (p = ''0b'' \<or> p = ''0B'') \<and> list_all (\<lambda>c. c \<in> set ''01'') z))"

definition is_numeric_string :: "string \<Rightarrow> bool" where
  "is_numeric_string s =
     (let t = rev (dropWhile is_white_space (rev (dropWhile is_white_space s)))
      in t = [] \<or> is_non_decimal t \<or>
         is_unsigned_decimal (if take 1 t = ''+'' \<or> take 1 t = ''-'' then drop 1 t else t))"

definition isNaN :: "jsval \<Rightarrow> bool" where
  "isNaN v = (case v of JUndefined \<Rightarrow> True | JNull \<Rightarrow> False | JBool b \<Rightarrow> False
              | JNum n \<Rightarrow> False | JNaN \<Rightarrow> True | JStr s \<Rightarrow> \<not> is_numeric_string s)"

text \<open>
  After \<open>num = parseInt(num)\<close> the JS function continues with the three statements of
  \<open>formatter.ts\<close>; on \<open>NaN\<close> both comparisons are false and \<open>toString\<close> gives \<open>NaN\<close>.
\<close>

definition formatNumber_js :: "jsval \<Rightarrow> string" where
  "formatNumber_js num =
     (if \<not> truthy num \<or> isNaN num then ''0''
      else case parseInt num of None \<Rightarrow> ''NaN'' | Some n \<Rightarrow> formatNumber n)"

text \<open>The specification's decimal string of an integer.\<close>

definition decimal_string :: "int \<Rightarrow> string" where
  "decimal_string n = (if n < 0 then CHR ''-'' # digits (nat (- n)) else digits (nat n))"

text \<open>
  The specification's rendering of a number of tenths \<open>t\<close>, that is of the value
  \<open>t / 10\<close>, as \<open>x.x\<close> with a trailing \<open>.0\<close> suppressed.
\<close>

definition one_decimal :: "nat \<Rightarrow> string" where
  "one_decimal t = digits (t div 10) @ (if t mod 10 = 0 then [] else ''.'' @ [digit_char (t mod 10)])"

subsection \<open>parseRegion\<close>

text \<open>
  \<open>regionMap[locationCreated]\<close> reads a property of an object literal under a key that
  is data. Such a read also finds the members the literal inherits from
  \<open>Object.prototype\<close> (ECMAScript 2023, 20.1.3 and B.2.2); each of them is a function,
  or for \<open>__proto__\<close> an object, and so truthy.
\<close>

definition Object_prototype_members :: "string list" where
  "Object_prototype_members =
     [''constructor'', ''hasOwnProperty'', ''isPrototypeOf'', ''propertyIsEnumerable'',
      ''toLocaleString'', ''toString'', ''valueOf'', ''__proto__'', ''__defineGetter__'',
      ''__defineSetter__'', ''__lookupGetter__'', ''__lookupSetter__'']"

datatype 'a property = Own 'a | Inherited string | Missing

definition literal_get :: "(string \<times> 'a) list \<Rightarrow> string \<Rightarrow> 'a property" where
  "literal_get obj k =
     (case map_of obj k of Some v \<Rightarrow> Own v
      | None \<Rightarrow> if k \<in> set Object_prototype_members then Inherited k else Missing)"

definition regionMap :: "(string \<times> string) list" where
  "regionMap =
     [(''US'', ''United States''), (''GB'', ''United Kingdom''), (''CA'', ''Canada''),
      (''AU'', ''Australia''), (''DE'', ''Germany''), (''FR'', ''France''), (''JP'', ''Japan''),
      (''KR'', ''South Korea''), (''IN'', ''India''), (''BR'', ''Brazil''), (''MX'', ''Mexico''),
      (''ID'', ''Indonesia''), (''RU'', ''Russia''), (''TR'', ''Turkey''),
      (''SA'', ''Saudi Arabia''), (''TH'', ''Thailand''), (''VN'', ''Vietnam''),
      (''PH'', ''Philippines''), (''MY'', ''Malaysia''), (''SG'', ''Singapore''),
      (''TW'', ''Taiwan''), (''HK'', ''Hong Kong''), (''CN'', ''China'')]"

text \<open>
  The result is a string, or the inherited member itself. The argument is \<open>None\<close> when
  the caller passes \<open>undefined\<close>, as \<open>parseRegion(itemStruct.locationCreated)\<close> does for a
  record without that key; the key read is then \<open>undefined\<close>, which the table lacks.
\<close>

datatype region = RegionName string | BuiltinMember string

definition parseRegion :: "string option \<Rightarrow> region" where
  "parseRegion locationCreated =
     (case locationCreated of
        None \<Rightarrow> RegionName ''Unknown''
      | Some c \<Rightarrow>
          (case literal_get regionMap c of
             Own name \<Rightarrow> if name \<noteq> [] then RegionName name
                         else if c \<noteq> [] then RegionName c else RegionName ''Unknown''
           | Inherited m \<Rightarrow> BuiltinMember m
           | Missing \<Rightarrow> if c \<noteq> [] then RegionName c else RegionName ''Unknown''))"


section \<open>Identifier Extractor\<close>

text \<open>
  The URL patterns are regular expressions of one shape: literal text, a greedy
  repetition \<open>c+\<close> of a character class (\<open>\w\<close>, \<open>[\w.]\<close> or \<open>\d\<close>), the greedy \<open>.*\<close>,
  and one capture group \<open>(c+)\<close>. \<open>url.match(pattern)\<close> finds the leftmost match: it
  tries each start position in turn and, at a position, the longest repetition first,
  backing off one character at a time. \<open>match\<close> returns the text of the capture group,
  which \<open>extractVideoId\<close> returns as \<open>match[1]\<close>; it is never empty, so the test
  \<open>!videoId\<close> of the orchestrators fails exactly on \<open>null\<close> (\<open>None\<close>).
\<close>

datatype char_class = Word | WordDot | Digit

datatype rx = Lit string | Plus char_class | Group char_class | AnyStar

definition is_word :: "char \<Rightarrow> bool" where
  "is_word c = (c \<in> set ''abcdefghijklmnopqrstuvwxyzABCDEFGHIJKLMNOPQRSTUVWXYZ0123456789_'')"

definition in_class :: "char_class \<Rightarrow> char \<Rightarrow> bool" where
  "in_class k c = (case k of Word \<Rightarrow> is_word c | WordDot \<Rightarrow> is_word c \<or> c = CHR ''.''
                   | Digit \<Rightarrow> is_digit c)"

definition is_line_terminator :: "char \<Rightarrow> bool" where
  "is_line_terminator c = (c = CHR 0x0A \<or> c = CHR 0x0D)"

fun first_some :: "'a option list \<Rightarrow> 'a option" where
  "first_some [] = None"
| "first_some (Some x # xs) = Some x"
| "first_some (None # xs) = first_some xs"

definition run_length :: "(char \<Rightarrow> bool) \<Rightarrow> string \<Rightarrow> nat" where
  "run_length P s = length (takeWhile P s)"

fun match_here :: "rx list \<Rightarrow> string \<Rightarrow> string \<Rightarrow> string option" where
  "match_here [] s cap = Some cap"
| "match_here (Lit l # r) s cap =
     (if take (length l) s = l then match_here r (drop (length l) s) cap else None)"
| "match_here (Plus k # r) s cap =
     first_some (map (\<lambda>n. match_here r (drop n s) cap)
                     (rev [1..<Suc (run_length (in_class k) s)]))"
| "match_here (Group k # r) s cap =
     first_some (map (\<lambda>n. match_here r (drop n s) (take n s))
                     (rev [1..<Suc (run_length (in_class k) s)]))"
| "match_here (AnyStar # r) s cap =
     first_some (map (\<lambda>n. match_here r (drop n s) cap)
                     (rev [0..<Suc (run_length (\<lambda>c. \<not> is_line_terminator c) s)]))"

fun match :: "rx list \<Rightarrow> string \<Rightarrow> string option" where
  "match p [] = match_here p [] []"
| "match p (c # s) = (case match_here p (c # s) [] of Some cap \<Rightarrow> Some cap | None \<Rightarrow> match p s)"

definition String_includes :: "string \<Rightarrow> string \<Rightarrow> bool" where
  "String_includes s sub = list_ex (\<lambda>i. take (length sub) (drop i s) = sub) [0..<Suc (length s)]"

definition patterns_js :: "rx list list" where
  "patterns_js =
    [[Lit ''tiktok.com/@'', Plus WordDot, Lit ''/video/'', Group Digit],
     [Lit ''tiktok.com/t/'', Group Word],
     [Lit ''vm.tiktok.com/'', Group Word],
     [Lit ''vt.tiktok.com/'', Group Word],
     [Lit ''tiktok.com/video/'', Group Digit],
     [Lit ''/v/'', Group Digit],
     [Lit ''m.tiktok.com/v/'', Group Digit],
     [Lit ''tiktok.com/'', AnyStar, Lit ''/video/'', Group Digit]]"

definition extractVideoId_js :: "string \<Rightarrow> string option" where
  "extractVideoId_js url = first_some (map (\<lambda>p. match p url) patterns_js)"

definition patterns_ts :: "rx list list" where
  "patterns_ts = take 7 patterns_js"

definition extractVideoId_ts :: "string \<Rightarrow> string option" where
  "extractVideoId_ts url = first_some (map (\<lambda>p. match p url) patterns_ts)"

definition patterns_lib :: "rx list list" where
  "patterns_lib =
    [[Lit ''tiktok.com/@'', Plus WordDot, Lit ''/video/'', Group Digit],
     [Lit ''tiktok.com/t/'', Group Word],
     [Lit ''vm.tiktok.com/'', Group Word],
     [Lit ''tiktok.com/video/'', Group Digit],
     [Lit ''/v/'', Group Digit]]"

definition extractVideoId_lib :: "string \<Rightarrow> string option" where
  "extractVideoId_lib url =
     (case first_some (map (\<lambda>p. match p url) patterns_lib) of
        Some v \<Rightarrow> Some v
      | None \<Rightarrow> if String_includes url ''vm.tiktok.com'' \<or> String_includes url ''vt.tiktok.com''
                then Some ''pending'' else None)"


section \<open>Data model\<close>

text \<open>
  The upstream record (\<open>itemStruct\<close>, \<open>any\<close>-typed in the source) is modelled by the
  keys the assemblers read, each optional: \<open>None\<close> stands for a key that is absent, or
  whose path (\<open>a?.b?.c\<close>) breaks off. Strings, numbers and lists have the types the
  upstream schema gives them. The values under the statistics keys are left to a type
  parameter: the JS handler parses them defensively and meets any \<open>jsval\<close>; the
  TypeScript variants pass them on as the numbers \<open>types.ts\<close> declares.
\<close>

record raw_bit_rate =
  info_play_addr_url_list :: "string list option"
  info_width :: "int option"
  info_height :: "int option"
  info_quality :: "string option"
  info_data_size :: "int option"
  info_bit_rate :: "int option"

record raw_bitrateInfo =
  info_PlayAddr_UrlList :: "string list option"
  info_PlayAddr_Width :: "int option"
  info_PlayAddr_Height :: "int option"
  info_Resolution :: "string option"
  info_QualityType :: "string option"
  info_DataSize :: "int option"
  info_Bitrate :: "int option"

record raw_video =
  video_play_addr_url_list :: "string list option"
  video_download_addr_url_list :: "string list option"
  video_bit_rate :: "raw_bit_rate list option"
  video_playAddr :: "string option"
  video_downloadAddr :: "string option"
  video_bitrateInfo :: "raw_bitrateInfo list option"
  video_ratio :: "string option"
  video_quality :: "string option"
  video_width :: "int option"
  video_height :: "int option"
  video_bitrate :: "int option"

record raw_image =
  img_url_list :: "string list option"
  img_display_image_url_list :: "string list option"
  img_origin_image_url_list :: "string list option"
  img_imageURL_urlList :: "string list option"
  img_width :: "int option"
  img_height :: "int option"
  img_imageWidth :: "int option"
  img_imageHeight :: "int option"

record 'n raw_stats =
  digg_count :: 'n
  diggCount :: 'n
  comment_count :: 'n
  commentCount :: 'n
  share_count :: 'n
  shareCount :: 'n
  play_count :: 'n
  playCount :: 'n

record 'n raw_item =
  item_imagePost_images :: "raw_image list option"
  item_image_post_info_images :: "raw_image list option"
  item_aweme_type :: "int option"
  item_video :: "raw_video option"
  item_statistics :: "'n raw_stats option"
  item_stats :: "'n raw_stats option"
  item_create_time :: "int option"
  item_createTime :: "int option"

text \<open>
  The canonical record (\<open>VideoData\<close> of \<open>types.ts\<close>), with the fields the claims speak
  of. The fields \<open>id\<close>, \<open>desc\<close>, \<open>thumbnail\<close>, \<open>author\<close>, \<open>duration\<close>, \<open>region\<close>,
  \<open>createdAt\<close>, \<open>music\<close> and, inside a quality entry, \<open>size\<close> and \<open>type\<close> are alias
  chains of their own that no other field reads; they are left out, except that
  \<open>createdAt\<close> can throw, which is kept. An optional field that was never assigned is
  \<open>None\<close>; \<open>hd\<close> distinguishes \<open>null\<close> from \<open>undefined\<close>.
\<close>

datatype post_type = type_video | type_images

record VideoQuality =
  url :: string
  quality :: string
  sizeBytes :: int
  width :: int
  height :: int
  bitrate :: int

record ImageData =
  image_url :: string
  image_width :: int
  image_height :: int

datatype hd_value = HdUrl string | HdNull | HdUndefined

record VideoSection =
  noWatermark :: "VideoQuality list"
  withWatermark :: "VideoQuality list"
  hd :: hd_value

record 'r Statistics =
  likes :: string
  comments :: string
  shares :: string
  views :: string
  likesRaw :: 'r
  commentsRaw :: 'r
  sharesRaw :: 'r
  viewsRaw :: 'r

record 'r VideoData =
  type :: post_type
  statistics :: "'r Statistics"
  video_section :: "VideoSection option"
  images_section :: "ImageData list option"

datatype status_tag = success | error

record 'r TikTokResponse =
  status :: status_tag
  message :: "string option"
  data :: "'r VideoData option"

text \<open>A thrown \<open>Error\<close> with its message.\<close>

datatype exn = Error string


section \<open>Response Assembler\<close>

subsection \<open>JavaScript operators on the typed fields\<close>

text \<open>
  \<open>a || b\<close> takes \<open>a\<close> when it is truthy: a non-empty string, a non-zero number. An
  array or object is always truthy. \<open>xs?.[0]\<close> is the first element, \<open>undefined\<close> when
  there is none, and \<open>xs?.length > 0\<close> says that there is one.
\<close>

definition s_or :: "string option \<Rightarrow> string \<Rightarrow> string" where
  "s_or a b = (case a of Some s \<Rightarrow> if s \<noteq> [] then s else b | None \<Rightarrow> b)"

definition n_or :: "int option \<Rightarrow> int \<Rightarrow> int" where
  "n_or a b = (case a of Some n \<Rightarrow> if n \<noteq> 0 then n else b | None \<Rightarrow> b)"

definition js_or :: "jsval \<Rightarrow> jsval \<Rightarrow> jsval" where
  "js_or a b = (if truthy a then a else b)"

definition first_of :: "'a list option \<Rightarrow> 'a option" where
  "first_of xs = (case xs of None \<Rightarrow> None | Some [] \<Rightarrow> None | Some (x # _) \<Rightarrow> Some x)"

definition non_empty :: "'a list option \<Rightarrow> bool" where
  "non_empty xs = (case xs of None \<Rightarrow> False | Some [] \<Rightarrow> False | Some (_ # _) \<Rightarrow> True)"

text \<open>The first truthy string of a chain \<open>a || b || ...\<close>, if any.\<close>

fun first_truthy :: "string option list \<Rightarrow> string option" where
  "first_truthy [] = None"
| "first_truthy (None # xs) = first_truthy xs"
| "first_truthy (Some s # xs) = (if s \<noteq> [] then Some s else first_truthy xs)"

text \<open>A number inside a template literal; an absent one prints as \<open>undefined\<close>.\<close>

definition template_number :: "int option \<Rightarrow> string" where
  "template_number n = (case n of None \<Rightarrow> ''undefined'' | Some i \<Rightarrow> Number_toString i)"

text \<open>
  \<open>new Date(seconds * 1000).toISOString()\<close> throws a \<open>RangeError\<close> when the time value
  lies outside the range of \<open>Date\<close>, 8.64e15 milliseconds either side of the epoch.
\<close>

definition toISOString_throws :: "int \<Rightarrow> bool" where
  "toISOString_throws seconds = (8640000000000000 < \<bar>seconds * 1000\<bar>)"

definition is_hd_label :: "VideoQuality \<Rightarrow> bool" where
  "is_hd_label q = (String_includes (quality q) ''720'' \<or> String_includes (quality q) ''1080'')"

subsection \<open>formatResponse of the JS handler\<close>

definition isImagePost_js :: "'n raw_item \<Rightarrow> bool" where
  "isImagePost_js itemStruct =
     (non_empty (item_imagePost_images itemStruct) \<or>
      non_empty (item_image_post_info_images itemStruct) \<or>
      item_aweme_type itemStruct = Some 150)"

definition empty_video :: raw_video where
  "empty_video = \<lparr>video_play_addr_url_list = None, video_download_addr_url_list = None,
     video_bit_rate = None, video_playAddr = None, video_downloadAddr = None,
     video_bitrateInfo = None, video_ratio = None, video_quality = None, video_width = None,
     video_height = None, video_bitrate = None\<rparr>"

text \<open>The entries pushed from \<open>play_addr.url_list\<close>: one for each truthy URL.\<close>

definition primary_js :: "raw_video \<Rightarrow> VideoQuality list" where
  "primary_js videoInfo =
     (case video_play_addr_url_list videoInfo of
        None \<Rightarrow> []
      | Some url_list \<Rightarrow>
          map (\<lambda>u. \<lparr>url = u,
                     quality = s_or (video_ratio videoInfo) (s_or (video_quality videoInfo) ''540p''),
                     sizeBytes = 0,
                     width = n_or (video_width videoInfo) 576,
                     height = n_or (video_height videoInfo) 1024,
                     bitrate = n_or (video_bitrate videoInfo) 0\<rparr>)
              (filter (\<lambda>u. u \<noteq> []) url_list))"

text \<open>
  The entries pushed from \<open>bit_rate\<close>: one for each element whose first URL is truthy.
  The label is the template literal, which is never empty, so that the alternatives
  written after it are never taken.
\<close>

definition bit_rate_entry_js :: "raw_bit_rate \<Rightarrow> VideoQuality list" where
  "bit_rate_entry_js info =
     (case first_truthy [first_of (info_play_addr_url_list info)] of
        None \<Rightarrow> []
      | Some u \<Rightarrow>
          [\<lparr>url = u,
            quality = s_or (Some (template_number (info_width info) @ ''x'' @
                                  template_number (info_height info)))
                           (s_or (info_quality info) ''540p''),
            sizeBytes = n_or (info_data_size info) 0,
            width = n_or (info_width info) 576,
            height = n_or (info_height info) 1024,
            bitrate = n_or (info_bit_rate info) 0\<rparr>])"

definition secondary_js :: "raw_video \<Rightarrow> VideoQuality list" where
  "secondary_js videoInfo =
     (case video_bit_rate videoInfo of None \<Rightarrow> [] | Some infos \<Rightarrow> concat (map bit_rate_entry_js infos))"

definition withWatermark_js :: "raw_video \<Rightarrow> VideoQuality list" where
  "withWatermark_js videoInfo =
     (case video_download_addr_url_list videoInfo of
        None \<Rightarrow> []
      | Some url_list \<Rightarrow>
          map (\<lambda>u. \<lparr>url = u,
                     quality = s_or (video_ratio videoInfo) ''540p'',
                     sizeBytes = 0,
                     width = n_or (video_width videoInfo) 576,
                     height = n_or (video_height videoInfo) 1024,
                     bitrate = n_or (video_bitrate videoInfo) 0\<rparr>)
              (filter (\<lambda>u. u \<noteq> []) url_list))"

text \<open>
  \<open>qualities.filter(q => ...)\<close> with the set \<open>seenUrls\<close>: an entry is kept when its URL
  was not seen before, and its URL is then recorded.
\<close>

fun dedupe :: "string list \<Rightarrow> VideoQuality list \<Rightarrow> VideoQuality list" where
  "dedupe seenUrls [] = []"
| "dedupe seenUrls (q # qs) =
     (if url q \<in> set seenUrls then dedupe seenUrls qs else q # dedupe (url q # seenUrls) qs)"

text \<open>
  The comparator of \<open>uniqueQualities.sort\<close>. \<open>qualityOrder[a.quality] || 0\<close> is the rank
  of a label in the table and 0 for a label that is missing; for a label that names an
  inherited member it is that member, and the subtraction then yields \<open>NaN\<close> (\<open>None\<close>).
\<close>

definition qualityOrder :: "(string \<times> int) list" where
  "qualityOrder = [(''1080p'', 4), (''720p'', 3), (''540p'', 2), (''480p'', 1)]"

definition score :: "string \<Rightarrow> int option" where
  "score label = (case literal_get qualityOrder label of
                    Own n \<Rightarrow> Some (if n \<noteq> 0 then n else 0)
                  | Inherited m \<Rightarrow> None
                  | Missing \<Rightarrow> Some 0)"

definition comparefn :: "VideoQuality \<Rightarrow> VideoQuality \<Rightarrow> int option" where
  "comparefn a b = (case (score (quality a), score (quality b)) of
                      (Some aScore, Some bScore) \<Rightarrow> Some (bScore - aScore)
                    | _ \<Rightarrow> None)"

text \<open>
  \<open>Array.prototype.sort\<close> (ECMAScript 2023, 23.1.3.30) compares through \<open>SortCompare\<close>,
  which reads a \<open>NaN\<close> from the comparator as \<open>+0\<close>, and is stable. When the comparator
  is consistent, which it is unless a \<open>NaN\<close> occurs, the result is the one stable
  ordering, given here by insertion. When it is not, the standard leaves the order to
  the engine; the insertion order below is then one admissible outcome, and no theorem
  about the order covers that case.
\<close>

definition SortCompare :: "VideoQuality \<Rightarrow> VideoQuality \<Rightarrow> int" where
  "SortCompare x y = (case comparefn x y of None \<Rightarrow> 0 | Some v \<Rightarrow> v)"

fun insert_sorted :: "VideoQuality \<Rightarrow> VideoQuality list \<Rightarrow> VideoQuality list" where
  "insert_sorted x [] = [x]"
| "insert_sorted x (y # ys) =
     (if SortCompare x y \<le> 0 then x # y # ys else y # insert_sorted x ys)"

definition Array_sort :: "VideoQuality list \<Rightarrow> VideoQuality list" where
  "Array_sort xs = foldr insert_sorted xs []"

definition uniqueQualities :: "raw_video \<Rightarrow> VideoQuality list" where
  "uniqueQualities videoInfo = Array_sort (dedupe [] (primary_js videoInfo @ secondary_js videoInfo))"

definition hd_js :: "VideoQuality list \<Rightarrow> hd_value" where
  "hd_js qs = (case first_truthy [map_option url (find is_hd_label qs), map_option url (first_of (Some qs))]
               of Some u \<Rightarrow> HdUrl u | None \<Rightarrow> HdNull)"

definition image_js :: "raw_image \<Rightarrow> ImageData" where
  "image_js img =
     \<lparr>image_url = (case first_truthy [first_of (img_url_list img),
                                       first_of (img_display_image_url_list img),
                                       first_of (img_origin_image_url_list img)]
                    of Some u \<Rightarrow> u | None \<Rightarrow> []),
      image_width = n_or (img_width img) 1080,
      image_height = n_or (img_height img) 1920\<rparr>"

definition images_js :: "'n raw_item \<Rightarrow> ImageData list" where
  "images_js itemStruct =
     filter (\<lambda>img. image_url img \<noteq> [])
       (map image_js
          (case item_imagePost_images itemStruct of
             Some xs \<Rightarrow> xs
           | None \<Rightarrow> (case item_image_post_info_images itemStruct of Some ys \<Rightarrow> ys | None \<Rightarrow> [])))"

definition empty_stats :: "jsval raw_stats" where
  "empty_stats = \<lparr>digg_count = JUndefined, diggCount = JUndefined, comment_count = JUndefined,
     commentCount = JUndefined, share_count = JUndefined, shareCount = JUndefined,
     play_count = JUndefined, playCount = JUndefined\<rparr>"

definition number_of :: "int option \<Rightarrow> jsval" where
  "number_of n = (case n of None \<Rightarrow> JNaN | Some i \<Rightarrow> JNum i)"

definition statistics_js :: "jsval raw_item \<Rightarrow> jsval Statistics" where
  "statistics_js itemStruct =
     (let stats = (case item_statistics itemStruct of
                     Some s \<Rightarrow> s
                   | None \<Rightarrow> (case item_stats itemStruct of Some s \<Rightarrow> s | None \<Rightarrow> empty_stats))
      in \<lparr>likes = formatNumber_js (js_or (digg_count stats) (js_or (diggCount stats) (JNum 0))),
          comments = formatNumber_js (js_or (comment_count stats) (js_or (commentCount stats) (JNum 0))),
          shares = formatNumber_js (js_or (share_count stats) (js_or (shareCount stats) (JNum 0))),
          views = formatNumber_js (js_or (play_count stats) (js_or (playCount stats) (JNum 0))),
          likesRaw = number_of (parseInt (js_or (digg_count stats) (js_or (diggCount stats) (JNum 0)))),
          commentsRaw = number_of (parseInt (js_or (comment_count stats) (js_or (commentCount stats) (JNum 0)))),
          sharesRaw = number_of (parseInt (js_or (share_count stats) (js_or (shareCount stats) (JNum 0)))),
          viewsRaw = number_of (parseInt (js_or (play_count stats) (js_or (playCount stats) (JNum 0))))\<rparr>)"

definition createdAt_throws_js :: "'n raw_item \<Rightarrow> bool" where
  "createdAt_throws_js itemStruct =
     (let createTime = n_or (item_create_time itemStruct) (n_or (item_createTime itemStruct) 0)
      in createTime \<noteq> 0 \<and> toISOString_throws createTime)"

definition formatResponse_js :: "jsval raw_item \<Rightarrow> exn + jsval TikTokResponse" where
  "formatResponse_js itemStruct =
     (let isImagePost = isImagePost_js itemStruct;
          videoInfo = (case item_video itemStruct of Some v \<Rightarrow> v | None \<Rightarrow> empty_video)
      in if createdAt_throws_js itemStruct then Inl (Error ''Invalid time value'')
         else Inr \<lparr>status = success, message = None,
                   data = Some
                     \<lparr>type = (if isImagePost then type_images else type_video),
                      statistics = statistics_js itemStruct,
                      video_section =
                        (if \<not> isImagePost
                         then Some \<lparr>noWatermark = uniqueQualities videoInfo,
                                    withWatermark = withWatermark_js videoInfo,
                                    hd = hd_js (uniqueQualities videoInfo)\<rparr>
                         else None),
                      images_section = (if isImagePost then Some (images_js itemStruct) else None)\<rparr>\<rparr>)"


subsection \<open>formatResponse of the multi-strategy TypeScript library\<close>

text \<open>\<open>o?.key\<close> on an optional object.\<close>

definition opt_field :: "('a \<Rightarrow> 'b option) \<Rightarrow> 'a option \<Rightarrow> 'b option" where
  "opt_field key obj = (case obj of None \<Rightarrow> None | Some x \<Rightarrow> key x)"

definition isImagePost_ts :: "'n raw_item \<Rightarrow> bool" where
  "isImagePost_ts itemStruct = non_empty (item_imagePost_images itemStruct)"

definition primary_ts :: "raw_video \<Rightarrow> VideoQuality list" where
  "primary_ts video =
     (case first_truthy [first_of (video_play_addr_url_list video)] of
        None \<Rightarrow> []
      | Some u \<Rightarrow>
          [\<lparr>url = u, quality = s_or (video_ratio video) ''540p'', sizeBytes = 0,
            width = n_or (video_width video) 576, height = n_or (video_height video) 1024,
            bitrate = n_or (video_bitrate video) 0\<rparr>])"

definition bit_rate_entry_ts :: "raw_bit_rate \<Rightarrow> VideoQuality list" where
  "bit_rate_entry_ts info =
     (case first_truthy [first_of (info_play_addr_url_list info)] of
        None \<Rightarrow> []
      | Some u \<Rightarrow>
          [\<lparr>url = u,
            quality = template_number (info_width info) @ ''x'' @ template_number (info_height info),
            sizeBytes = n_or (info_data_size info) 0,
            width = n_or (info_width info) 576,
            height = n_or (info_height info) 1024,
            bitrate = n_or (info_bit_rate info) 0\<rparr>])"

definition secondary_ts :: "raw_video \<Rightarrow> VideoQuality list" where
  "secondary_ts video =
     (case video_bit_rate video of None \<Rightarrow> [] | Some infos \<Rightarrow> concat (map bit_rate_entry_ts infos))"

definition withWatermark_ts :: "raw_video \<Rightarrow> VideoQuality list" where
  "withWatermark_ts video =
     (case first_truthy [first_of (video_download_addr_url_list video)] of
        None \<Rightarrow> []
      | Some u \<Rightarrow>
          [\<lparr>url = u, quality = s_or (video_ratio video) ''540p'', sizeBytes = 0,
            width = n_or (video_width video) 576, height = n_or (video_height video) 1024,
            bitrate = n_or (video_bitrate video) 0\<rparr>])"

definition hd_ts :: "VideoQuality list \<Rightarrow> hd_value" where
  "hd_ts qs = (case first_truthy [map_option url (find is_hd_label qs), map_option url (first_of (Some qs))]
               of Some u \<Rightarrow> HdUrl u | None \<Rightarrow> HdUndefined)"

definition image_ts :: "raw_image \<Rightarrow> ImageData" where
  "image_ts img =
     \<lparr>image_url = (case first_truthy [first_of (img_url_list img),
                                       first_of (img_display_image_url_list img)]
                    of Some u \<Rightarrow> u | None \<Rightarrow> []),
      image_width = n_or (img_width img) 1080,
      image_height = n_or (img_height img) 1920\<rparr>"

definition statistics_ts :: "int option raw_item \<Rightarrow> int Statistics" where
  "statistics_ts itemStruct =
     (let a = item_statistics itemStruct; b = item_stats itemStruct
      in \<lparr>likes = formatNumber (n_or (opt_field digg_count a) (n_or (opt_field diggCount b) 0)),
          comments = formatNumber (n_or (opt_field comment_count a) (n_or (opt_field commentCount b) 0)),
          shares = formatNumber (n_or (opt_field share_count a) (n_or (opt_field shareCount b) 0)),
          views = formatNumber (n_or (opt_field play_count a) (n_or (opt_field playCount b) 0)),
          likesRaw = n_or (opt_field digg_count a) (n_or (opt_field diggCount b) 0),
          commentsRaw = n_or (opt_field comment_count a) (n_or (opt_field commentCount b) 0),
          sharesRaw = n_or (opt_field share_count a) (n_or (opt_field shareCount b) 0),
          viewsRaw = n_or (opt_field play_count a) (n_or (opt_field playCount b) 0)\<rparr>)"

definition formatResponse_ts :: "int option raw_item \<Rightarrow> exn + int TikTokResponse" where
  "formatResponse_ts itemStruct =
     (let isImagePost = isImagePost_ts itemStruct;
          qualities = (case item_video itemStruct of
                         None \<Rightarrow> [] | Some video \<Rightarrow> primary_ts video @ secondary_ts video)
      in if n_or (item_create_time itemStruct) 0 \<noteq> 0 \<and>
            toISOString_throws (n_or (item_create_time itemStruct) 0)
         then Inl (Error ''Invalid time value'')
         else Inr \<lparr>status = success, message = None,
                   data = Some
                     \<lparr>type = (if isImagePost then type_images else type_video),
                      statistics = statistics_ts itemStruct,
                      video_section =
                        (case item_video itemStruct of
                           None \<Rightarrow> None
                         | Some video \<Rightarrow>
                             if \<not> isImagePost
                             then Some \<lparr>noWatermark = qualities,
                                        withWatermark = withWatermark_ts video,
                                        hd = hd_ts qualities\<rparr>
                             else None),
                      images_section =
                        (case item_imagePost_images itemStruct of
                           None \<Rightarrow> None
                         | Some imgs \<Rightarrow> if isImagePost then Some (map image_ts imgs) else None)\<rparr>\<rparr>)"

subsection \<open>The assembly inside scrapeTikTok of src/lib/tiktok-scraper.ts\<close>

definition primary_lib :: "raw_video \<Rightarrow> VideoQuality list" where
  "primary_lib video =
     (case first_truthy [video_playAddr video] of
        None \<Rightarrow> []
      | Some u \<Rightarrow>
          [\<lparr>url = u, quality = s_or (video_ratio video) ''540p'', sizeBytes = 0,
            width = n_or (video_width video) 576, height = n_or (video_height video) 1024,
            bitrate = n_or (video_bitrate video) 0\<rparr>])"

definition bitrateInfo_entry_lib :: "raw_bitrateInfo \<Rightarrow> VideoQuality list" where
  "bitrateInfo_entry_lib info =
     (case first_truthy [first_of (info_PlayAddr_UrlList info)] of
        None \<Rightarrow> []
      | Some u \<Rightarrow>
          [\<lparr>url = u,
            quality = s_or (info_Resolution info) (s_or (info_QualityType info) ''540p''),
            sizeBytes = n_or (info_DataSize info) 0,
            width = n_or (info_PlayAddr_Width info) 576,
            height = n_or (info_PlayAddr_Height info) 1024,
            bitrate = n_or (info_Bitrate info) 0\<rparr>])"

definition secondary_lib :: "raw_video \<Rightarrow> VideoQuality list" where
  "secondary_lib video =
     (case video_bitrateInfo video of
        None \<Rightarrow> [] | Some infos \<Rightarrow> concat (map bitrateInfo_entry_lib infos))"

definition withWatermark_lib :: "raw_video \<Rightarrow> VideoQuality list" where
  "withWatermark_lib video =
     (case first_truthy [video_downloadAddr video] of
        None \<Rightarrow> []
      | Some u \<Rightarrow>
          [\<lparr>url = u, quality = s_or (video_ratio video) ''540p'', sizeBytes = 0,
            width = n_or (video_width video) 576, height = n_or (video_height video) 1024,
            bitrate = n_or (video_bitrate video) 0\<rparr>])"

definition second_of :: "'a list option \<Rightarrow> 'a option" where
  "second_of xs = (case xs of Some (_ # x # _) \<Rightarrow> Some x | _ \<Rightarrow> None)"

definition image_lib :: "raw_image \<Rightarrow> ImageData" where
  "image_lib img =
     \<lparr>image_url = (case first_truthy [first_of (img_imageURL_urlList img),
                                       second_of (img_imageURL_urlList img)]
                    of Some u \<Rightarrow> u | None \<Rightarrow> []),
      image_width = n_or (img_imageWidth img) 1080,
      image_height = n_or (img_imageHeight img) 1920\<rparr>"

definition statistics_lib :: "int option raw_item \<Rightarrow> int Statistics" where
  "statistics_lib itemStruct =
     (let b = item_stats itemStruct
      in \<lparr>likes = formatNumber (n_or (opt_field diggCount b) 0),
          comments = formatNumber (n_or (opt_field commentCount b) 0),
          shares = formatNumber (n_or (opt_field shareCount b) 0),
          views = formatNumber (n_or (opt_field playCount b) 0),
          likesRaw = n_or (opt_field diggCount b) 0,
          commentsRaw = n_or (opt_field commentCount b) 0,
          sharesRaw = n_or (opt_field shareCount b) 0,
          viewsRaw = n_or (opt_field playCount b) 0\<rparr>)"

definition assemble_lib :: "int option raw_item \<Rightarrow> exn + int TikTokResponse" where
  "assemble_lib itemStruct =
     (let isImagePost = non_empty (item_imagePost_images itemStruct);
          qualities = (case item_video itemStruct of
                         None \<Rightarrow> [] | Some video \<Rightarrow> primary_lib video @ secondary_lib video)
      in if n_or (item_createTime itemStruct) 0 \<noteq> 0 \<and>
            toISOString_throws (n_or (item_createTime itemStruct) 0)
         then Inl (Error ''Invalid time value'')
         else Inr \<lparr>status = success, message = None,
                   data = Some
                     \<lparr>type = (if isImagePost then type_images else type_video),
                      statistics = statistics_lib itemStruct,
                      video_section =
                        (case item_video itemStruct of
                           None \<Rightarrow> None
                         | Some video \<Rightarrow>
                             if \<not> isImagePost
                             then Some \<lparr>noWatermark = qualities,
                                        withWatermark = withWatermark_lib video,
                                        hd = hd_ts qualities\<rparr>
                             else None),
                      images_section =
                        (case item_imagePost_images itemStruct of
                           None \<Rightarrow> None
                         | Some imgs \<Rightarrow> if isImagePost then Some (map image_lib imgs) else None)\<rparr>\<rparr>)"

section \<open>Retrieval strategies and the orchestrator\<close>

text \<open>
  The network and the parsers are the environment. A request either fails
  (\<open>axios.get\<close> rejects with an error: no connection, a timeout, a status outside 2xx) or
  delivers a document. Of a document the code only uses the embedded data containers;
  each one is absent or empty, or fails to parse (\<open>JSON.parse\<close> throws), or parses, and
  then the path to the item (\<open>data?.itemInfo?.itemStruct\<close> and the like) leads to a
  truthy value or not. A strategy returns its result together with the URLs it
  requested, in order.
\<close>

datatype 'a fetched = Failed string | Response 'a

datatype 'i container = NoScript | Malformed string | Parsed "'i option"

record 'i page =
  universal_data :: "'i container"
  sigi_state :: "'i container"
  next_data :: "'i container"

record 'i network =
  get_page :: "string \<Rightarrow> 'i page fetched"
  get_feed :: "string \<Rightarrow> 'i option fetched"
  get_embed :: "string \<Rightarrow> 'i container fetched"

datatype 'a outcome = Threw exn | Returned 'a

type_synonym 'r strategy_result = "'r TikTokResponse option outcome \<times> string list"

subsection \<open>The JS handler\<close>

text \<open>
  One \<open>if (script) { try { ... } catch (e) { ... } }\<close> block of \<open>fetchFromWebPage\<close>: the
  response returned from inside it, if any. A parse error and an error thrown by
  \<open>formatResponse\<close> are both caught there.
\<close>

definition from_container_js :: "jsval raw_item container \<Rightarrow> jsval TikTokResponse option" where
  "from_container_js c =
     (case c of
        Parsed (Some itemStruct) \<Rightarrow>
          (case formatResponse_js itemStruct of Inr r \<Rightarrow> Some r | Inl e \<Rightarrow> None)
      | _ \<Rightarrow> None)"

definition fetchFromWebPage_js :: "jsval raw_item network \<Rightarrow> string \<Rightarrow> jsval strategy_result" where
  "fetchFromWebPage_js net page_url =
     (case get_page net page_url of
        Failed m \<Rightarrow> (Threw (Error m), [page_url])
      | Response p \<Rightarrow>
          (Returned (first_some [from_container_js (universal_data p),
                                 from_container_js (sigi_state p),
                                 from_container_js (next_data p)]), [page_url]))"

definition apiUrls :: "string \<Rightarrow> string list" where
  "apiUrls videoId =
     [''https://api16-normal-c-useast1a.tiktokv.com/aweme/v1/feed/?aweme_id='' @ videoId,
      ''https://api16-normal-c-useast2a.tiktokv.com/aweme/v1/feed/?aweme_id='' @ videoId,
      ''https://api16-core-c-useast1a.tiktokv.com/aweme/v1/feed/?aweme_id='' @ videoId]"

fun api_loop_js :: "jsval raw_item network \<Rightarrow> string list \<Rightarrow> jsval strategy_result" where
  "api_loop_js net [] = (Returned None, [])"
| "api_loop_js net (apiUrl # rest) =
     (case (case get_feed net apiUrl of
              Response (Some videoData) \<Rightarrow>
                (case formatResponse_js videoData of Inr r \<Rightarrow> Some r | Inl e \<Rightarrow> None)
            | _ \<Rightarrow> None)
      of Some r \<Rightarrow> (Returned (Some r), [apiUrl])
       | None \<Rightarrow> (case api_loop_js net rest of (res, calls) \<Rightarrow> (res, apiUrl # calls)))"

definition fetchFromApi_js :: "jsval raw_item network \<Rightarrow> string \<Rightarrow> jsval strategy_result" where
  "fetchFromApi_js net videoId = api_loop_js net (apiUrls videoId)"

definition fetchFromEmbed_js :: "jsval raw_item network \<Rightarrow> string \<Rightarrow> jsval strategy_result" where
  "fetchFromEmbed_js net videoId =
     (let embedUrl = ''https://www.tiktok.com/embed/'' @ videoId
      in (Returned (case get_embed net embedUrl of
                      Failed m \<Rightarrow> None
                    | Response c \<Rightarrow> from_container_js c), [embedUrl]))"

text \<open>
  The loop over the strategies and the statement after it. A strategy is run only when
  the loop reaches it; a result that is \<open>null\<close> or not a success, and a thrown error,
  lead to the next one.
\<close>

fun run_strategies ::
  "(unit \<Rightarrow> 'r strategy_result) list \<Rightarrow> 'r TikTokResponse \<Rightarrow> 'r TikTokResponse \<times> string list" where
  "run_strategies [] exhausted = (exhausted, [])"
| "run_strategies (strategy # rest) exhausted =
     (case strategy () of (res, calls) \<Rightarrow>
        (case (case res of Returned (Some result) \<Rightarrow>
                             if status result = success then Some result else None
                           | _ \<Rightarrow> None)
         of Some result \<Rightarrow> (result, calls)
          | None \<Rightarrow> (case run_strategies rest exhausted of (r, later) \<Rightarrow> (r, calls @ later))))"

definition error_response :: "string \<Rightarrow> 'r TikTokResponse" where
  "error_response m = \<lparr>status = error, message = Some m, data = None\<rparr>"

definition all_failed_js :: string where
  "all_failed_js = ''All extraction methods failed. Video may be private, deleted, or region-blocked.''"

definition scrapeTikTok_body_js ::
  "jsval raw_item network \<Rightarrow> string \<Rightarrow> jsval TikTokResponse outcome \<times> string list" where
  "scrapeTikTok_body_js net page_url =
     (case extractVideoId_js page_url of
        None \<Rightarrow> (Returned (error_response ''Invalid TikTok URL format''), [])
      | Some videoId \<Rightarrow>
          (case run_strategies [\<lambda>_. fetchFromWebPage_js net page_url,
                                \<lambda>_. fetchFromApi_js net videoId,
                                \<lambda>_. fetchFromEmbed_js net videoId]
                               (error_response all_failed_js)
           of (r, calls) \<Rightarrow> (Returned r, calls)))"

text \<open>The outer \<open>catch\<close>: \<open>error.message || 'Unknown error occurred'\<close>.\<close>

definition scrapeTikTok_js ::
  "jsval raw_item network \<Rightarrow> string \<Rightarrow> jsval TikTokResponse outcome \<times> string list" where
  "scrapeTikTok_js net page_url =
     (case scrapeTikTok_body_js net page_url of
        (Threw (Error m), calls) \<Rightarrow>
          (Returned (error_response (if m \<noteq> [] then m else ''Unknown error occurred'')), calls)
      | (Returned r, calls) \<Rightarrow> (Returned r, calls))"

subsection \<open>The multi-strategy TypeScript library\<close>

text \<open>
  Here \<open>fetchFromWebPage\<close> has no \<open>try\<close> of its own: a parse error and an error from
  \<open>formatResponse\<close> leave the strategy. It reads two containers.
\<close>

definition fetchFromWebPage_ts :: "int option raw_item network \<Rightarrow> string \<Rightarrow> int strategy_result" where
  "fetchFromWebPage_ts net page_url =
     (case get_page net page_url of
        Failed m \<Rightarrow> (Threw (Error m), [page_url])
      | Response p \<Rightarrow>
          ((case universal_data p of
              Malformed m \<Rightarrow> Threw (Error m)
            | Parsed (Some itemStruct) \<Rightarrow>
                (case formatResponse_ts itemStruct of Inl e \<Rightarrow> Threw e | Inr r \<Rightarrow> Returned (Some r))
            | _ \<Rightarrow>
                (case sigi_state p of
                   Malformed m \<Rightarrow> Threw (Error m)
                 | Parsed (Some itemStruct) \<Rightarrow>
                     (case formatResponse_ts itemStruct of
                        Inl e \<Rightarrow> Threw e | Inr r \<Rightarrow> Returned (Some r))
                 | _ \<Rightarrow> Returned None)), [page_url]))"

definition fetchFromApi_ts :: "int option raw_item network \<Rightarrow> string \<Rightarrow> int strategy_result" where
  "fetchFromApi_ts net videoId =
     (let apiUrl = ''https://api16-normal-c-useast1a.tiktokv.com/aweme/v1/feed/?aweme_id='' @ videoId
      in (Returned (case get_feed net apiUrl of
                      Response (Some videoData) \<Rightarrow>
                        (case formatResponse_ts videoData of Inr r \<Rightarrow> Some r | Inl e \<Rightarrow> None)
                    | _ \<Rightarrow> None), [apiUrl]))"

definition fetchFromEmbed_ts :: "int option raw_item network \<Rightarrow> string \<Rightarrow> int strategy_result" where
  "fetchFromEmbed_ts net videoId = (Returned None, [''https://www.tiktok.com/embed/'' @ videoId])"

definition all_failed_ts :: string where
  "all_failed_ts = ''All extraction methods failed. Video may be private or region-blocked.''"

definition scrapeTikTok_body_ts ::
  "int option raw_item network \<Rightarrow> string \<Rightarrow> int TikTokResponse outcome \<times> string list" where
  "scrapeTikTok_body_ts net page_url =
     (case extractVideoId_ts page_url of
        None \<Rightarrow> (Returned (error_response ''Invalid TikTok URL format''), [])
      | Some videoId \<Rightarrow>
          (case run_strategies [\<lambda>_. fetchFromWebPage_ts net page_url,
                                \<lambda>_. fetchFromApi_ts net videoId,
                                \<lambda>_. fetchFromEmbed_ts net videoId]
                               (error_response all_failed_ts)
           of (r, calls) \<Rightarrow> (Returned r, calls)))"

text \<open>
  The outer \<open>catch\<close> of both TypeScript variants:
  \<open>error instanceof Error ? error.message : 'Unknown error occurred'\<close>.
\<close>

definition catch_ts ::
  "int TikTokResponse outcome \<times> string list \<Rightarrow> int TikTokResponse outcome \<times> string list" where
  "catch_ts r = (case r of (Threw (Error m), calls) \<Rightarrow> (Returned (error_response m), calls)
                 | (Returned x, calls) \<Rightarrow> (Returned x, calls))"

definition scrapeTikTok_ts ::
  "int option raw_item network \<Rightarrow> string \<Rightarrow> int TikTokResponse outcome \<times> string list" where
  "scrapeTikTok_ts net page_url = catch_ts (scrapeTikTok_body_ts net page_url)"

subsection \<open>src/lib/tiktok-scraper.ts\<close>

definition scrapeTikTok_body_lib ::
  "int option raw_item network \<Rightarrow> string \<Rightarrow> int TikTokResponse outcome \<times> string list" where
  "scrapeTikTok_body_lib net page_url =
     (case extractVideoId_lib page_url of
        None \<Rightarrow> (Returned (error_response ''Invalid TikTok URL''), [])
      | Some videoId \<Rightarrow>
          ((case get_page net page_url of
              Failed m \<Rightarrow> Threw (Error m)
            | Response p \<Rightarrow>
                (case universal_data p of
                   NoScript \<Rightarrow> Returned (error_response ''Could not extract video data'')
                 | Malformed m \<Rightarrow> Threw (Error m)
                 | Parsed None \<Rightarrow> Returned (error_response ''Video not found or private'')
                 | Parsed (Some itemStruct) \<Rightarrow>
                     (case assemble_lib itemStruct of Inl e \<Rightarrow> Threw e | Inr r \<Rightarrow> Returned r))),
           [page_url]))"

definition scrapeTikTok_lib ::
  "int option raw_item network \<Rightarrow> string \<Rightarrow> int TikTokResponse outcome \<times> string list" where
  "scrapeTikTok_lib net page_url = catch_ts (scrapeTikTok_body_lib net page_url)"


section \<open>Notions the claims are stated with\<close>

definition quality_rank :: "string \<Rightarrow> int" where
  "quality_rank label = (if label = ''1080p'' then 4 else if label = ''720p'' then 3
                         else if label = ''540p'' then 2 else if label = ''480p'' then 1 else 0)"

definition well_formed :: "'r TikTokResponse \<Rightarrow> bool" where
  "well_formed r = (case status r of
                      success \<Rightarrow> data r \<noteq> None \<and> message r = None
                    | error \<Rightarrow> message r \<noteq> None \<and> data r = None)"

definition failed :: "'a option outcome \<Rightarrow> bool" where
  "failed res = (case res of Threw e \<Rightarrow> True | Returned None \<Rightarrow> True | Returned (Some r) \<Rightarrow> False)"

definition unreachable :: "'i network" where
  "unreachable = \<lparr>get_page = (\<lambda>u. Failed ''timeout of 15000ms exceeded''),
                   get_feed = (\<lambda>u. Failed ''Request failed with status code 403''),
                   get_embed = (\<lambda>u. Failed ''Network Error'')\<rparr>"

definition the_video :: "exn + 'r TikTokResponse \<Rightarrow> VideoSection option" where
  "the_video res = (case res of Inl e \<Rightarrow> None
                    | Inr r \<Rightarrow> (case data r of None \<Rightarrow> None | Some d \<Rightarrow> video_section d))"

definition the_images :: "exn + 'r TikTokResponse \<Rightarrow> ImageData list option" where
  "the_images res = (case res of Inl e \<Rightarrow> None
                     | Inr r \<Rightarrow> (case data r of None \<Rightarrow> None | Some d \<Rightarrow> images_section d))"

definition the_type :: "exn + 'r TikTokResponse \<Rightarrow> post_type option" where
  "the_type res = (case res of Inl e \<Rightarrow> None
                   | Inr r \<Rightarrow> (case data r of None \<Rightarrow> None | Some d \<Rightarrow> Some (type d)))"

definition the_statistics :: "exn + 'r TikTokResponse \<Rightarrow> 'r Statistics option" where
  "the_statistics res = (case res of Inl e \<Rightarrow> None
                         | Inr r \<Rightarrow> (case data r of None \<Rightarrow> None | Some d \<Rightarrow> Some (statistics d)))"

definition descending :: "VideoQuality list \<Rightarrow> bool" where
  "descending qs = sorted_wrt (\<lambda>a b. quality_rank (quality b) \<le> quality_rank (quality a)) qs"

section \<open>Concrete inputs\<close>

definition empty_item :: "'n raw_item" where
  "empty_item = \<lparr>item_imagePost_images = None, item_image_post_info_images = None,
     item_aweme_type = None, item_video = None, item_statistics = None, item_stats = None,
     item_create_time = None, item_createTime = None\<rparr>"

definition empty_bit_rate :: raw_bit_rate where
  "empty_bit_rate = \<lparr>info_play_addr_url_list = None, info_width = None, info_height = None,
     info_quality = None, info_data_size = None, info_bit_rate = None\<rparr>"

definition empty_bitrateInfo :: raw_bitrateInfo where
  "empty_bitrateInfo = \<lparr>info_PlayAddr_UrlList = None, info_PlayAddr_Width = None,
     info_PlayAddr_Height = None, info_Resolution = None, info_QualityType = None,
     info_DataSize = None, info_Bitrate = None\<rparr>"

definition empty_image :: raw_image where
  "empty_image = \<lparr>img_url_list = None, img_display_image_url_list = None,
     img_origin_image_url_list = None, img_imageURL_urlList = None, img_width = None,
     img_height = None, img_imageWidth = None, img_imageHeight = None\<rparr>"

text \<open>
  A record whose play address comes back as the first rung of the bitrate ladder, in
  the snake-case shape of the mobile API:
  \<open>{video: {play_addr: {url_list: [a]}, ratio: "540p",
     bit_rate: [{play_addr: {url_list: [a]}, width: 720, height: 1280},
                {play_addr: {url_list: [b]}, width: 1080, height: 1920}]}}\<close>.
\<close>

definition repeated_url_item :: "'n raw_item" where
  "repeated_url_item = empty_item
     \<lparr>item_video := Some (empty_video
        \<lparr>video_play_addr_url_list := Some [''https://v16.example/a.mp4''],
         video_ratio := Some ''540p'',
         video_bit_rate := Some
           [empty_bit_rate\<lparr>info_play_addr_url_list := Some [''https://v16.example/a.mp4''],
                           info_width := Some 720, info_height := Some 1280\<rparr>,
            empty_bit_rate\<lparr>info_play_addr_url_list := Some [''https://v16.example/b.mp4''],
                           info_width := Some 1080, info_height := Some 1920\<rparr>]\<rparr>)\<rparr>"

text \<open>
  The same in the camel-case shape of the web page:
  \<open>{video: {playAddr: a, ratio: "480p",
     bitrateInfo: [{PlayAddr: {UrlList: [a]}, Resolution: "1080p"}]}}\<close>.
\<close>

definition repeated_url_item_lib :: "'n raw_item" where
  "repeated_url_item_lib = empty_item
     \<lparr>item_video := Some (empty_video
        \<lparr>video_playAddr := Some ''https://v16.example/a.mp4'',
         video_ratio := Some ''480p'',
         video_bitrateInfo := Some
           [empty_bitrateInfo\<lparr>info_PlayAddr_UrlList := Some [''https://v16.example/a.mp4''],
                              info_Resolution := Some ''1080p''\<rparr>]\<rparr>)\<rparr>"

text \<open>A record with a video object that carries no address: \<open>{video: {}}\<close>.\<close>

definition no_address_item :: "'n raw_item" where
  "no_address_item = empty_item\<lparr>item_video := Some empty_video\<rparr>"

text \<open>An image post one of whose entries has no URL: \<open>{imagePost: {images: [{}]}}\<close>.\<close>

definition blank_image_item :: "'n raw_item" where
  "blank_image_item = empty_item\<lparr>item_imagePost_images := Some [empty_image]\<rparr>"

text \<open>A record with a like count in display form: \<open>{statistics: {digg_count: "1.2K"}}\<close>.\<close>

definition display_count_item :: "jsval raw_item" where
  "display_count_item = empty_item
     \<lparr>item_statistics := Some (empty_stats\<lparr>digg_count := JStr ''1.2K''\<rparr>)\<rparr>"

definition labelled_urls :: "VideoSection option \<Rightarrow> (string \<times> string) list option" where
  "labelled_urls v = map_option (\<lambda>s. map (\<lambda>q. (url q, quality q)) (noWatermark s)) v"

section \<open>Properties of the Field Normalizer\<close>


lemma digits_small [simp]: "n < 10 \<Longrightarrow> digits n = [digit_char n]"
  by (subst digits.simps) simp

lemma digits_large [simp]: "10 \<le> n \<Longrightarrow> digits n = digits (n div 10) @ [digit_char (n mod 10)]"
  by (subst digits.simps) simp

lemma lg2_small [simp]: "n < 2 \<Longrightarrow> lg2 n = 0"
  by (subst lg2.simps) simp

lemma lg2_large [simp]: "2 \<le> n \<Longrightarrow> lg2 n = Suc (lg2 (n div 2))"
  by (subst lg2.simps) simp

lemma digit_cases:
  "d < 10 \<Longrightarrow> d = 0 \<or> d = 1 \<or> d = 2 \<or> d = 3 \<or> d = 4 \<or> d = 5 \<or> d = 6 \<or> d = 7 \<or> d = 8 \<or> d = (9::nat)"
  by arith

lemma digit_char_zero_iff: "d < 10 \<Longrightarrow> digit_char d = CHR ''0'' \<longleftrightarrow> d = 0"
  by (drule digit_cases, elim disjE) (simp_all add: digit_char_def)

lemma digit_value_digit_char: "d < 10 \<Longrightarrow> digit_value (digit_char d) = int d"
  by (drule digit_cases, elim disjE) (simp_all add: digit_char_def digit_value_def place_def)

lemma is_digit_digit_char: "d < 10 \<Longrightarrow> is_digit (digit_char d)"
  by (drule digit_cases, elim disjE) (simp_all add: digit_char_def is_digit_def)

lemma strip_dot0_fixed:
  "strip_dot0 (ds @ [CHR ''.'', c]) = (if c = CHR ''0'' then ds else ds @ [CHR ''.'', c])"
  by (simp add: strip_dot0_def)

lemma strip_toFixed1:
  "e < 0 \<Longrightarrow> strip_dot0 (toFixed1 (m, e)) = one_decimal (tenths (m, e))"
  by (simp add: toFixed1_def one_decimal_def Let_def strip_dot0_fixed digit_char_zero_iff)

lemma list_all_digits: "list_all is_digit (digits n)"
proof (induction n rule: digits.induct)
  case (1 n)
  show ?case
  proof (cases "n < 10")
    case True
    then show ?thesis by (simp add: is_digit_digit_char)
  next
    case False
    with 1 show ?thesis by (simp add: is_digit_digit_char)
  qed
qed

lemma digits_nonempty: "digits n \<noteq> []"
  by (cases "n < 10") simp_all

lemma radix_value_snoc: "radix_value r (z @ [c]) = radix_value r z * r + digit_value c"
  by (simp add: radix_value_def)

lemma radix_value_digits: "radix_value 10 (digits n) = int n"
proof (induction n rule: digits.induct)
  case (1 n)
  show ?case
  proof (cases "n < 10")
    case True
    then show ?thesis by (simp add: radix_value_def digit_value_digit_char)
  next
    case False
    with 1 have "radix_value 10 (digits (n div 10)) = int (n div 10)" by simp
    moreover have "int (n div 10) * 10 + int (n mod 10) = int n"
      by (simp add: of_nat_div of_nat_mod)
    ultimately show ?thesis using False
      by (simp add: radix_value_snoc digit_value_digit_char)
  qed
qed

lemma parseInt_string_digits: "parseInt_string (digits n) = Some (nearest_double (int n))"
proof -
  obtain c cs where d: "digits n = c # cs" using digits_nonempty by (cases "digits n") auto
  have all: "list_all is_digit (c # cs)" using list_all_digits[of n] d by simp
  then have c: "is_digit c" and cs: "list_all is_digit cs" by simp_all
  have nws: "\<not> is_white_space c" using c by (auto simp: is_digit_def is_white_space_def)
  have nsign: "c \<noteq> CHR ''-''" "c \<noteq> CHR ''+''" using c by (auto simp: is_digit_def)
  have nhex: "take (Suc 0) cs \<noteq> ''x''" "take (Suc 0) cs \<noteq> ''X''"
    using cs by (cases cs; auto simp: is_digit_def)+
  have tw: "takeWhile is_digit (c # cs) = c # cs"
    using all by (simp add: takeWhile_eq_all_conv list_all_iff)
  have "parseInt_string (c # cs) = Some (nearest_double (radix_value 10 (c # cs)))"
    unfolding parseInt_string_def Let_def using nws nsign nhex tw by simp
  then show ?thesis using radix_value_digits[of n] d by simp
qed

lemma parseInt_string_minus_digits:
  "parseInt_string (CHR ''-'' # digits n) = Some (- nearest_double (int n))"
proof -
  obtain c cs where d: "digits n = c # cs" using digits_nonempty by (cases "digits n") auto
  have all: "list_all is_digit (c # cs)" using list_all_digits[of n] d by simp
  then have c: "is_digit c" and cs: "list_all is_digit cs" by simp_all
  have nhex: "take (Suc 0) cs \<noteq> ''x''" "take (Suc 0) cs \<noteq> ''X''"
    using cs by (cases cs; auto simp: is_digit_def)+
  have tw: "takeWhile is_digit (c # cs) = c # cs"
    using all by (simp add: takeWhile_eq_all_conv list_all_iff)
  have "parseInt_string (CHR ''-'' # c # cs) = Some (- nearest_double (radix_value 10 (c # cs)))"
    unfolding parseInt_string_def Let_def using nhex tw by (simp add: is_white_space_def)
  then show ?thesis using radix_value_digits[of n] d by simp
qed

lemma Number_toString_safe:
  "- (2 ^ 53) < n \<Longrightarrow> n < 2 ^ 53 \<Longrightarrow> Number_toString n = decimal_string n"
  by (simp add: Number_toString_def Number_toString_positive_def decimal_string_def)

lemma parseInt_JNum: "- (2 ^ 53) < n \<Longrightarrow> n < 2 ^ 53 \<Longrightarrow> parseInt (JNum n) = Some n"
  using parseInt_string_digits[of "nat n"] parseInt_string_minus_digits[of "nat (- n)"]
  by (simp add: parseInt_def ToString_def Number_toString_safe decimal_string_def
      nearest_double_def)

lemma formatNumber_zero: "formatNumber 0 = ''0''"
  by (simp add: formatNumber_def Number_toString_def Number_toString_positive_def digit_char_def)

lemma formatNumber_js_JNum:
  "- (2 ^ 53) < n \<Longrightarrow> n < 2 ^ 53 \<Longrightarrow> formatNumber_js (JNum n) = formatNumber n"
  by (simp add: formatNumber_js_def truthy_def isNaN_def parseInt_JNum formatNumber_zero)


lemma lg2_bounds: "0 < n \<Longrightarrow> 2 ^ lg2 n \<le> n \<and> n < 2 ^ Suc (lg2 n)"
proof (induction n rule: lg2.induct)
  case (1 n)
  show ?case
  proof (cases "n < 2")
    case True
    with 1(2) show ?thesis by simp
  next
    case False
    then have "0 < n div 2" by simp
    with 1(1) False have ih: "2 ^ lg2 (n div 2) \<le> n div 2" "n div 2 < 2 ^ Suc (lg2 (n div 2))"
      by simp_all
    from False have eq: "lg2 n = Suc (lg2 (n div 2))" by simp
    from ih show ?thesis unfolding eq by (simp; linarith)
  qed
qed

lemma round_half_even_quot_bound:
  assumes "0 < b"
  shows "\<bar>2 * (round_half_even_quot a b * b - a)\<bar> \<le> b"
proof -
  define q where "q = a div b"
  define r where "r = a mod b"
  have a': "a = q * b + r" and r': "0 \<le> r" "r < b" using assms by (simp_all add: q_def r_def)
  have "round_half_even_quot a b = q \<and> 2 * r \<le> b \<or> round_half_even_quot a b = q + 1 \<and> b \<le> 2 * r"
    unfolding round_half_even_quot_def Let_def q_def[symmetric] r_def[symmetric] by auto
  then show ?thesis
  proof
    assume h: "round_half_even_quot a b = q \<and> 2 * r \<le> b"
    then have "round_half_even_quot a b * b - a = - r" using a' by simp
    with h r' show ?thesis by simp
  next
    assume h: "round_half_even_quot a b = q + 1 \<and> b \<le> 2 * r"
    then have "round_half_even_quot a b * b - a = b - r" using a' by (simp add: algebra_simps)
    with h r' show ?thesis by simp
  qed
qed

lemma mult_lt_self_imp: "(0::int) < K \<Longrightarrow> K * X < K \<Longrightarrow> X \<le> 0"
proof -
  assume K: "0 < K" and h: "K * X < K"
  then have "K * X < K * 1" by simp
  with K have "X < 1" by (simp only: mult_less_cancel_left_pos)
  then show ?thesis by simp
qed

lemma double_div_exponent:
  assumes d: "2 \<le> d" and dn: "d \<le> n" and n53: "n < 2 ^ 53"
  shows "snd (double_div n d) < 0"
proof -
  define L where "L = lg2 (nat (n div d))"
  have npos: "0 < n" using d dn by simp
  have "0 < n div d" using dn d by (simp add: pos_imp_zdiv_pos_iff)
  then have q1: "1 \<le> n div d" by simp
  then have qn: "0 < nat (n div d)" by simp
  from lg2_bounds[OF qn] have "2 ^ L \<le> nat (n div d)" by (simp add: L_def)
  then have "int (2 ^ L) \<le> int (nat (n div d))" by (simp only: of_nat_le_iff)
  then have Lq: "(2::int) ^ L \<le> n div d" using q1 by simp
  have "n div d \<le> n div 2"
    by (rule zdiv_mono2) (use npos d in simp_all)
  also have "\<dots> < 2 ^ 52" using n53 by simp
  finally have "(2::int) ^ L < 2 ^ 52" using Lq by simp
  then have "L < 52" by (simp only: power_strict_increasing_iff[of "2::int"] rel_simps)
  then show ?thesis using dn by (simp add: double_div_def floor_log2_quot_def L_def Let_def)
qed

lemma tenths_double_div:
  assumes h: "0 < h" and d: "d = 20 * h" and dn: "d \<le> n" and n53: "n < 2 ^ 53"
  shows "\<bar>2 * h * int (tenths (double_div n d)) - n\<bar> \<le> h"
proof -
  define L where "L = lg2 (nat (n div d))"
  have dpos: "0 < d" using h d by simp
  have npos: "0 < n" using dpos dn by simp
  have "0 < n div d" using dn dpos by (simp add: pos_imp_zdiv_pos_iff)
  then have q1: "1 \<le> n div d" by simp
  then have qn: "0 < nat (n div d)" by simp
  from lg2_bounds[OF qn] have Lb: "2 ^ L \<le> nat (n div d)" by (simp add: L_def)
  have "n div d \<le> n div 1"
    by (rule zdiv_mono2) (use npos dpos in simp_all)
  then have qle: "int (nat (n div d)) \<le> n" using q1 by simp
  have "int (2 ^ L) \<le> int (nat (n div d))" using Lb by (simp only: of_nat_le_iff)
  then have "int (2 ^ L) < int (2 ^ 53)" using qle n53 by simp
  then have lt53: "(2::nat) ^ L < 2 ^ 53" by (simp only: of_nat_less_iff)
  have L52: "L \<le> 52"
  proof (rule ccontr)
    assume "\<not> L \<le> 52"
    then have "53 \<le> L" by simp
    then have "(2::nat) ^ 53 \<le> 2 ^ L" by (rule power_increasing) simp
    with lt53 show False using leD by blast
  qed
  define k where "k = 52 - L"
  define K :: int where "K = 2 ^ k"
  have Kpos: "0 < K" by (simp add: K_def)
  have e: "floor_log2_quot n d - 52 = - int k"
    using dn L52 by (simp add: floor_log2_quot_def L_def k_def)
  define m where "m = round_half_even_quot (n * K) d"
  have dd: "double_div n d = (m, - int k)"
  proof (cases "k = 0")
    case True
    then show ?thesis unfolding double_div_def e Let_def m_def K_def by simp
  next
    case False
    then show ?thesis unfolding double_div_def e Let_def m_def K_def by simp
  qed
  define T where "T = (20 * m + K) div (2 * K)"
  have tt: "tenths (m, - int k) = nat T"
  proof (cases "k = 0")
    case True
    then show ?thesis unfolding tenths_def T_def K_def by simp
  next
    case False
    then show ?thesis unfolding tenths_def T_def K_def by simp
  qed
  have "2 ^ L * d \<le> (n div d) * d"
  proof -
    have "int (2 ^ L) \<le> int (nat (n div d))" using Lb by (simp only: of_nat_le_iff)
    then have "(2::int) ^ L \<le> n div d" using q1 by simp
    then show ?thesis using dpos by simp
  qed
  also have "\<dots> \<le> n"
  proof -
    have "n = n div d * d + n mod d" by simp
    moreover have "0 \<le> n mod d" using dpos by simp
    ultimately show ?thesis by linarith
  qed
  finally have Ld: "2 ^ L * d \<le> n" .
  have "(2::int) ^ 52 = 2 ^ L * K" unfolding K_def k_def using L52
    by (simp add: power_add[symmetric])
  then have "2 ^ 52 * d = (2 ^ L * d) * K" by (simp only: mult_ac)
  also have "\<dots> \<le> n * K" using Ld Kpos by (intro mult_right_mono) simp_all
  finally have one: "2 ^ 52 * d \<le> n * K" .
  have two: "\<bar>2 * (m * d - n * K)\<bar> \<le> d"
    unfolding m_def by (rule round_half_even_quot_bound[OF dpos])
  have mnn: "0 \<le> m"
  proof -
    have "0 \<le> n * K" using npos Kpos by simp
    then have "0 \<le> (n * K) div d" using dpos by (simp add: pos_imp_zdiv_nonneg_iff)
    then show ?thesis unfolding m_def round_half_even_quot_def Let_def by auto
  qed
  have Tnn: "0 \<le> T" unfolding T_def using mnn Kpos by (simp add: pos_imp_zdiv_nonneg_iff)
  have three: "2 * K * T \<le> 20 * m + K" "20 * m + K < 2 * K * T + 2 * K"
  proof -
    have K2: "0 < 2 * K" using Kpos by simp
    have "20 * m + K = (2 * K) * T + (20 * m + K) mod (2 * K)"
      unfolding T_def by simp
    moreover have "0 \<le> (20 * m + K) mod (2 * K)" "(20 * m + K) mod (2 * K) < 2 * K"
      using K2 by simp_all
    ultimately show "2 * K * T \<le> 20 * m + K" "20 * m + K < 2 * K * T + 2 * K" by linarith+
  qed
  have Kbig: "10 * h < K"
  proof -
    have "n * (10 * h) < 2 ^ 53 * (10 * h)" using n53 h by simp
    also have "\<dots> = 2 ^ 52 * d" using d by simp
    also have "\<dots> \<le> n * K" by (rule one)
    finally show ?thesis using npos by simp
  qed
  define P where "P = m * d"
  define Q where "Q = n * K"
  define R where "R = h * K * T"
  define S where "S = h * K"
  have two': "\<bar>2 * (P - Q)\<bar> \<le> d" using two by (simp add: P_def Q_def)
  have t1: "2 * (P - Q) \<le> d" and t2: "- d \<le> 2 * (P - Q)"
    using two' by (simp_all only: abs_le_iff minus_le_iff)
  have "h * (2 * K * T) \<le> h * (20 * m + K)" using three(1) h by simp
  then have a1: "2 * R \<le> P + S" by (simp add: P_def R_def S_def d algebra_simps)
  have "h * (20 * m + K) < h * (2 * K * T + 2 * K)" using three(2) h by simp
  then have a2: "P + S < 2 * R + 2 * S" by (simp add: P_def R_def S_def d algebra_simps)
  have up: "2 * h * T - n - h \<le> 0"
  proof (rule mult_lt_self_imp[OF Kpos])
    have "K * (2 * h * T - n - h) = 2 * R - Q - S"
      by (simp add: Q_def R_def S_def algebra_simps)
    also have "\<dots> \<le> 10 * h" using a1 t1 d by arith
    finally show "K * (2 * h * T - n - h) < K" using Kbig by linarith
  qed
  have lo: "n - 2 * h * T - h \<le> 0"
  proof (rule mult_lt_self_imp[OF Kpos])
    have "K * (n - 2 * h * T - h) = Q - 2 * R - S"
      by (simp add: Q_def R_def S_def algebra_simps)
    also have "\<dots> < 10 * h" using a2 t2 d by arith
    finally show "K * (n - 2 * h * T - h) < K" using Kbig by linarith
  qed
  have "\<bar>2 * h * T - n\<bar> \<le> h" using up lo by (simp add: abs_le_iff)
  moreover have "int (tenths (double_div n d)) = T" using dd tt Tnn by simp
  ultimately show ?thesis by simp
qed

lemmas formatNumber_eval = formatNumber_def toFixed1_def tenths_def strip_dot0_def double_div_def
  round_half_even_quot_def floor_log2_quot_def Number_toString_def Number_toString_positive_def
  digit_char_def Let_def

lemmas number_eval = formatNumber_eval shortest_digits.simps nearest_double_def

lemma formatNumber_examples:
  "formatNumber 999 = ''999''" "formatNumber 1000 = ''1k''"
  "formatNumber 1500 = ''1.5k''" "formatNumber 2000000 = ''2m''"
  by (simp_all add: formatNumber_eval)

text \<open>
  Claim C8, as amended. For an integer \<open>n\<close> in the safe range (magnitude below
  \<open>2 ^ 53\<close>), \<open>formatNumber\<close> (both the TypeScript function and the JS handler's copy)
  renders \<open>n < 1000\<close> as its decimal string; \<open>1000 \<le> n < 1000000\<close> as a number of
  tenths \<open>t\<close> nearest to \<open>n / 1000\<close> (\<open>|t / 10 - n / 1000| \<le> 0.05\<close>), written with one
  decimal, a trailing \<open>.0\<close> suppressed, and the suffix \<open>k\<close>; and \<open>n \<ge> 1000000\<close>
  likewise for \<open>n / 1000000\<close> with the suffix \<open>m\<close>. In particular 999, 1000, 1500 and
  2000000 render as \<open>999\<close>, \<open>1k\<close>, \<open>1.5k\<close> and \<open>2m\<close>.
\<close>

theorem formatNumber_rendering:
  assumes "- (2 ^ 53) < n" and "n < 2 ^ 53"
  shows "(n < 1000 \<longrightarrow>
            formatNumber n = decimal_string n \<and> formatNumber_js (JNum n) = decimal_string n)
       \<and> (1000 \<le> n \<and> n < 1000000 \<longrightarrow>
            (\<exists>t. \<bar>100 * int t - n\<bar> \<le> 50 \<and> formatNumber n = one_decimal t @ ''k''
                 \<and> formatNumber_js (JNum n) = one_decimal t @ ''k''))
       \<and> (1000000 \<le> n \<longrightarrow>
            (\<exists>t. \<bar>100000 * int t - n\<bar> \<le> 50000 \<and> formatNumber n = one_decimal t @ ''m''
                 \<and> formatNumber_js (JNum n) = one_decimal t @ ''m''))
       \<and> formatNumber 999 = ''999'' \<and> formatNumber 1000 = ''1k''
       \<and> formatNumber 1500 = ''1.5k'' \<and> formatNumber 2000000 = ''2m''
       \<and> formatNumber_js (JNum 999) = ''999'' \<and> formatNumber_js (JNum 1000) = ''1k''
       \<and> formatNumber_js (JNum 1500) = ''1.5k'' \<and> formatNumber_js (JNum 2000000) = ''2m''"
proof -
  note js = formatNumber_js_JNum[OF assms]
  have small: "n < 1000 \<longrightarrow>
      formatNumber n = decimal_string n \<and> formatNumber_js (JNum n) = decimal_string n"
    using Number_toString_safe[OF assms] by (simp add: js formatNumber_def)
  have k: "1000 \<le> n \<and> n < 1000000 \<longrightarrow>
      (\<exists>t. \<bar>100 * int t - n\<bar> \<le> 50 \<and> formatNumber n = one_decimal t @ ''k''
           \<and> formatNumber_js (JNum n) = one_decimal t @ ''k'')"
  proof
    assume r: "1000 \<le> n \<and> n < 1000000"
    obtain m e where me: "double_div n 1000 = (m, e)" by (cases "double_div n 1000")
    have "snd (double_div n 1000) < 0"
      by (rule double_div_exponent) (use r assms in simp_all)
    then have e: "e < 0" using me by simp
    have "\<bar>2 * 50 * int (tenths (double_div n 1000)) - n\<bar> \<le> 50"
      by (rule tenths_double_div) (use r assms in simp_all)
    moreover have "formatNumber n = one_decimal (tenths (double_div n 1000)) @ ''k''"
      using r by (simp add: formatNumber_def me strip_toFixed1[OF e])
    ultimately show "\<exists>t. \<bar>100 * int t - n\<bar> \<le> 50 \<and> formatNumber n = one_decimal t @ ''k''
           \<and> formatNumber_js (JNum n) = one_decimal t @ ''k''"
      by (intro exI[of _ "tenths (double_div n 1000)"]) (simp add: js)
  qed
  have m: "1000000 \<le> n \<longrightarrow>
      (\<exists>t. \<bar>100000 * int t - n\<bar> \<le> 50000 \<and> formatNumber n = one_decimal t @ ''m''
           \<and> formatNumber_js (JNum n) = one_decimal t @ ''m'')"
  proof
    assume r: "1000000 \<le> n"
    obtain m e where me: "double_div n 1000000 = (m, e)" by (cases "double_div n 1000000")
    have "snd (double_div n 1000000) < 0"
      by (rule double_div_exponent) (use r assms in simp_all)
    then have e: "e < 0" using me by simp
    have "\<bar>2 * 50000 * int (tenths (double_div n 1000000)) - n\<bar> \<le> 50000"
      by (rule tenths_double_div) (use r assms in simp_all)
    moreover have "formatNumber n = one_decimal (tenths (double_div n 1000000)) @ ''m''"
      using r by (simp add: formatNumber_def me strip_toFixed1[OF e])
    ultimately show "\<exists>t. \<bar>100000 * int t - n\<bar> \<le> 50000 \<and> formatNumber n = one_decimal t @ ''m''
           \<and> formatNumber_js (JNum n) = one_decimal t @ ''m''"
      by (intro exI[of _ "tenths (double_div n 1000000)"]) (simp add: js)
  qed
  have ex: "formatNumber_js (JNum 999) = formatNumber 999"
    "formatNumber_js (JNum 1000) = formatNumber 1000"
    "formatNumber_js (JNum 1500) = formatNumber 1500"
    "formatNumber_js (JNum 2000000) = formatNumber 2000000"
    by (rule formatNumber_js_JNum; simp)+
  show ?thesis using small k m
    by (simp only: ex formatNumber_examples simp_thms)
qed

theorem formatNumber_rendering_witness:
  "- (2 ^ 53) < (1500::int) \<and> (1500::int) < 2 ^ 53 \<and> (1000::int) \<le> 1500 \<and> (1500::int) < 1000000 \<and>
   (\<exists>t. \<bar>100 * int t - 1500\<bar> \<le> 50 \<and> formatNumber 1500 = one_decimal t @ ''k''
        \<and> formatNumber_js (JNum 1500) = one_decimal t @ ''k'')
   \<and> - (2 ^ 53) < (999::int) \<and> (999::int) < 2 ^ 53 \<and> (999::int) < 1000
   \<and> formatNumber 999 = decimal_string 999
   \<and> - (2 ^ 53) < (2000000::int) \<and> (2000000::int) < 2 ^ 53 \<and> (1000000::int) \<le> 2000000 \<and>
   (\<exists>t. \<bar>100000 * int t - 2000000\<bar> \<le> 50000 \<and> formatNumber 2000000 = one_decimal t @ ''m''
        \<and> formatNumber_js (JNum 2000000) = one_decimal t @ ''m'')"
proof -
  have l1: "- (2 ^ 53) < (1500::int)" and h1: "(1500::int) < 2 ^ 53"
    and r1: "(1000::int) \<le> 1500 \<and> (1500::int) < 1000000" by simp_all
  have l2: "- (2 ^ 53) < (999::int)" and h2: "(999::int) < 2 ^ 53" and r2: "(999::int) < 1000"
    by simp_all
  have l3: "- (2 ^ 53) < (2000000::int)" and h3: "(2000000::int) < 2 ^ 53"
    and r3: "(1000000::int) \<le> 2000000" by simp_all
  from formatNumber_rendering[OF l1 h1] r1
  have c1: "\<exists>t. \<bar>100 * int t - 1500\<bar> \<le> 50 \<and> formatNumber 1500 = one_decimal t @ ''k''
        \<and> formatNumber_js (JNum 1500) = one_decimal t @ ''k''" by blast
  from formatNumber_rendering[OF l2 h2] r2
  have c2: "formatNumber 999 = decimal_string 999" by blast
  from formatNumber_rendering[OF l3 h3] r3
  have c3: "\<exists>t. \<bar>100000 * int t - 2000000\<bar> \<le> 50000 \<and> formatNumber 2000000 = one_decimal t @ ''m''
        \<and> formatNumber_js (JNum 2000000) = one_decimal t @ ''m''" by blast
  show ?thesis using l1 h1 r1 c1 l2 h2 r2 c2 l3 h3 r3 c3 by blast
qed

text \<open>
  Outside the safe range the renderings of claim C8 are not what the code produces: from
  \<open>10 ^ 21\<close> on, \<open>toString\<close> and \<open>toFixed\<close> switch to exponent notation. The Number
  value of \<open>10 ^ 27\<close> is \<open>1000000000000000013287555072\<close>; its quotient by \<open>1000000\<close> is
  the double \<open>10 ^ 21\<close>, so \<open>formatter.ts\<close> renders it as \<open>1e+21m\<close>, where the nearest
  tenth of the quotient gives \<open>1000000000000000013287.6m\<close>; the JS handler's copy
  reads \<open>1\<close> off the string \<open>1e+27\<close> and renders \<open>1\<close>. The Number value \<open>- 10 ^ 21\<close>,
  an integer below 1000, is rendered as \<open>-1e+21\<close>, not as its decimal string.
\<close>

theorem formatNumber_exponent_notation:
  "nearest_double (10 ^ 27) = 1000000000000000013287555072
   \<and> formatNumber 1000000000000000013287555072 = ''1e+21m''
   \<and> \<bar>100000 * int 10000000000000000132876 - 1000000000000000013287555072\<bar> \<le> 50000
   \<and> one_decimal 10000000000000000132876 @ ''m'' = ''1000000000000000013287.6m''
   \<and> formatNumber 1000000000000000013287555072 \<noteq> one_decimal 10000000000000000132876 @ ''m''
   \<and> formatNumber_js (JNum 1000000000000000013287555072) = ''1''
   \<and> nearest_double 1000000000000000000000 = 1000000000000000000000
   \<and> formatNumber (- 1000000000000000000000) = ''-1e+21''
   \<and> decimal_string (- 1000000000000000000000) = ''-1000000000000000000000''
   \<and> formatNumber (- 1000000000000000000000) \<noteq> decimal_string (- 1000000000000000000000)"
proof -
  have v27: "nearest_double (10 ^ 27) = 1000000000000000013287555072"
    by (simp add: number_eval)
  have big: "formatNumber 1000000000000000013287555072 = ''1e+21m''"
    by (simp add: number_eval)
  have near: "\<bar>100000 * int 10000000000000000132876 - 1000000000000000013287555072\<bar> \<le> 50000"
    by simp
  have dec: "one_decimal 10000000000000000132876 @ ''m'' = ''1000000000000000013287.6m''"
    by (simp add: one_decimal_def digit_char_def)
  have big_ne: "formatNumber 1000000000000000013287555072
      \<noteq> one_decimal 10000000000000000132876 @ ''m''"
    unfolding big dec by simp
  have js: "formatNumber_js (JNum 1000000000000000013287555072) = ''1''"
    by (simp add: number_eval formatNumber_js_def truthy_def isNaN_def parseInt_def ToString_def
        parseInt_string_def is_white_space_def is_digit_def radix_value_def digit_value_def
        place_def)
  have v21: "nearest_double 1000000000000000000000 = 1000000000000000000000"
    by (simp add: number_eval)
  have neg: "formatNumber (- 1000000000000000000000) = ''-1e+21''"
    by (simp add: number_eval)
  have negdec: "decimal_string (- 1000000000000000000000) = ''-1000000000000000000000''"
    by (simp add: decimal_string_def digit_char_def)
  have neg_ne: "formatNumber (- 1000000000000000000000)
      \<noteq> decimal_string (- 1000000000000000000000)"
    unfolding neg negdec by simp
  show ?thesis
    by (intro conjI v27 big near dec big_ne js v21 neg negdec neg_ne)
qed



lemma regionMap_keys:
  "map fst regionMap = [''US'', ''GB'', ''CA'', ''AU'', ''DE'', ''FR'', ''JP'', ''KR'', ''IN'', ''BR'',
     ''MX'', ''ID'', ''RU'', ''TR'', ''SA'', ''TH'', ''VN'', ''PH'', ''MY'', ''SG'', ''TW'', ''HK'', ''CN'']"
  by (simp add: regionMap_def)

lemma inherited_longer: "c \<in> set Object_prototype_members \<Longrightarrow> 2 < length c"
  by (auto simp: Object_prototype_members_def)

lemma two_letter_not_inherited: "length c = 2 \<Longrightarrow> c \<notin> set Object_prototype_members"
  using inherited_longer[of c] by auto


lemma parseRegion_table: "(c, name) \<in> set regionMap \<Longrightarrow> length c = 2 \<and> parseRegion (Some c) = RegionName name"
  unfolding regionMap_def parseRegion_def literal_get_def by (simp; elim disjE conjE; simp)


lemma parseRegion_unknown:
  assumes "c \<noteq> []" "c \<notin> fst ` set regionMap" "c \<notin> set Object_prototype_members"
  shows "parseRegion (Some c) = RegionName c"
proof -
  have "map_of regionMap c = None" using assms(2) by (simp add: map_of_eq_None_iff)
  then show ?thesis using assms(1,3) by (simp add: parseRegion_def literal_get_def)
qed

lemma parseRegion_examples:
  "parseRegion (Some []) = RegionName ''Unknown''" "parseRegion None = RegionName ''Unknown''"
  "parseRegion (Some ''US'') = RegionName ''United States''"
  "parseRegion (Some ''ZZ'') = RegionName ''ZZ''"
  by (simp_all add: parseRegion_def literal_get_def regionMap_def Object_prototype_members_def)

text \<open>
  Claim C9. \<open>parseRegion\<close> maps every code of the region table, each of them two
  letters long, to its display name; it returns every other two-letter code unchanged,
  and more generally every non-empty string that is neither in the table nor the name of
  a member inherited from \<open>Object.prototype\<close>; it returns \<open>Unknown\<close> for the empty
  string and for an absent argument. In particular \<open>US\<close> gives \<open>United States\<close>
  and \<open>ZZ\<close> gives \<open>ZZ\<close>.
\<close>

theorem parseRegion_lookup:
  "(\<forall>(c, name) \<in> set regionMap. length c = 2 \<and> parseRegion (Some c) = RegionName name)
   \<and> (\<forall>c. length c = 2 \<and> c \<notin> fst ` set regionMap \<longrightarrow> parseRegion (Some c) = RegionName c)
   \<and> (\<forall>c. c \<noteq> [] \<and> c \<notin> fst ` set regionMap \<and> c \<notin> set Object_prototype_members
          \<longrightarrow> parseRegion (Some c) = RegionName c)
   \<and> parseRegion (Some []) = RegionName ''Unknown''
   \<and> parseRegion None = RegionName ''Unknown''
   \<and> parseRegion (Some ''US'') = RegionName ''United States''
   \<and> parseRegion (Some ''ZZ'') = RegionName ''ZZ''"
proof (intro conjI)
  show "\<forall>(c, name) \<in> set regionMap. length c = 2 \<and> parseRegion (Some c) = RegionName name"
  proof (intro ballI)
    fix p assume "p \<in> set regionMap"
    then show "case p of (c, name) \<Rightarrow> length c = 2 \<and> parseRegion (Some c) = RegionName name"
      using parseRegion_table[of "fst p" "snd p"] by (simp add: case_prod_beta)
  qed
  show "\<forall>c. length c = 2 \<and> c \<notin> fst ` set regionMap \<longrightarrow> parseRegion (Some c) = RegionName c"
  proof (intro allI impI)
    fix c :: string assume h: "length c = 2 \<and> c \<notin> fst ` set regionMap"
    then have "c \<noteq> []" by auto
    with h two_letter_not_inherited[of c] show "parseRegion (Some c) = RegionName c"
      by (intro parseRegion_unknown) simp_all
  qed
  show "\<forall>c. c \<noteq> [] \<and> c \<notin> fst ` set regionMap \<and> c \<notin> set Object_prototype_members
          \<longrightarrow> parseRegion (Some c) = RegionName c"
    by (intro allI impI parseRegion_unknown) simp_all
qed (rule parseRegion_examples)+

theorem parseRegion_lookup_witness:
  "(''FR'', ''France'') \<in> set regionMap \<and> parseRegion (Some ''FR'') = RegionName ''France''
   \<and> length ''QQ'' = 2 \<and> ''QQ'' \<notin> fst ` set regionMap \<and> parseRegion (Some ''QQ'') = RegionName ''QQ''
   \<and> ''Mars'' \<noteq> [] \<and> ''Mars'' \<notin> fst ` set regionMap \<and> ''Mars'' \<notin> set Object_prototype_members
   \<and> parseRegion (Some ''Mars'') = RegionName ''Mars''"
proof -
  have m: "(''FR'', ''France'') \<in> set regionMap" by (simp add: regionMap_def)
  have k: "fst ` set regionMap = set (map fst regionMap)" by simp
  have q: "length ''QQ'' = 2 \<and> ''QQ'' \<notin> fst ` set regionMap"
    unfolding k regionMap_keys by simp
  have r: "''Mars'' \<noteq> [] \<and> ''Mars'' \<notin> fst ` set regionMap \<and> ''Mars'' \<notin> set Object_prototype_members"
    unfolding k regionMap_keys by (simp add: Object_prototype_members_def)
  note t = parseRegion_lookup
  from t[THEN conjunct1, rule_format, OF m]
  have c1: "parseRegion (Some ''FR'') = RegionName ''France''" by simp
  from t[THEN conjunct2, THEN conjunct1, rule_format, OF q]
  have c2: "parseRegion (Some ''QQ'') = RegionName ''QQ''" .
  from t[THEN conjunct2, THEN conjunct2, THEN conjunct1, rule_format, OF r]
  have c3: "parseRegion (Some ''Mars'') = RegionName ''Mars''" .
  show ?thesis using m q r c1 c2 c3 by (intro conjI) simp_all
qed

text \<open>
  Outside the region codes: a string that names an inherited member is not passed
  through, the lookup returns the member itself.
\<close>

lemma parseRegion_inherited_member:
  "parseRegion (Some ''constructor'') = BuiltinMember ''constructor''"
  by (simp add: parseRegion_def literal_get_def regionMap_def Object_prototype_members_def)

section \<open>Properties of the Response Assembler\<close>

lemma dedupe_urls:
  "distinct (map url (dedupe seen qs)) \<and> set (map url (dedupe seen qs)) = set (map url qs) - set seen"
proof (induction qs arbitrary: seen)
  case Nil
  show ?case by simp
next
  case (Cons q qs)
  from Cons[of seen] Cons[of "url q # seen"] show ?case by auto
qed

lemma dedupe_first:
  "q \<in> set (dedupe seen qs) \<Longrightarrow> url q \<notin> set seen \<and> find (\<lambda>p. url p = url q) qs = Some q"
proof (induction qs arbitrary: seen)
  case Nil
  then show ?case by simp
next
  case (Cons p qs)
  show ?case
  proof (cases "url p \<in> set seen")
    case True
    with Cons.prems have "q \<in> set (dedupe seen qs)" by simp
    from Cons.IH[OF this] True show ?thesis by auto
  next
    case False
    with Cons.prems have "q = p \<or> q \<in> set (dedupe (url p # seen) qs)" by simp
    then show ?thesis
    proof
      assume "q = p"
      with False show ?thesis by simp
    next
      assume "q \<in> set (dedupe (url p # seen) qs)"
      from Cons.IH[OF this] show ?thesis by auto
    qed
  qed
qed

lemma dedupe_subset: "set (dedupe seen qs) \<subseteq> set qs"
  by (induction qs arbitrary: seen) auto

lemma score_rank: "label \<notin> set Object_prototype_members \<Longrightarrow> score label = Some (quality_rank label)"
  by (simp add: score_def literal_get_def qualityOrder_def quality_rank_def)

lemma score_None_iff: "score label = None \<longleftrightarrow> label \<in> set Object_prototype_members"
proof
  assume "score label = None"
  then show "label \<in> set Object_prototype_members"
    using score_rank[of label] by auto
next
  assume "label \<in> set Object_prototype_members"
  then have "map_of qualityOrder label = None"
    by (auto simp: qualityOrder_def Object_prototype_members_def)
  with \<open>label \<in> set Object_prototype_members\<close> show "score label = None"
    by (simp add: score_def literal_get_def)
qed

lemma SortCompare_rank:
  "quality x \<notin> set Object_prototype_members \<Longrightarrow> quality y \<notin> set Object_prototype_members \<Longrightarrow>
   SortCompare x y = quality_rank (quality y) - quality_rank (quality x)"
  by (simp add: SortCompare_def comparefn_def score_rank)

lemma set_insert_sorted: "set (insert_sorted x ys) = insert x (set ys)"
  by (induction ys) auto

lemma set_Array_sort: "set (Array_sort xs) = set xs"
  unfolding Array_sort_def by (induction xs) (simp_all add: set_insert_sorted)

lemma distinct_insert_sorted:
  "distinct (map url (insert_sorted x ys)) \<longleftrightarrow> url x \<notin> url ` set ys \<and> distinct (map url ys)"
  by (induction ys) (auto simp: set_insert_sorted)

lemma distinct_Array_sort: "distinct (map url (Array_sort xs)) \<longleftrightarrow> distinct (map url xs)"
  unfolding Array_sort_def
  by (induction xs) (simp_all add: distinct_insert_sorted set_Array_sort[unfolded Array_sort_def])

lemma descending_insert_sorted:
  assumes "quality x \<notin> set Object_prototype_members"
    and "\<forall>y \<in> set ys. quality y \<notin> set Object_prototype_members"
    and "descending ys"
  shows "descending (insert_sorted x ys)"
  using assms
proof (induction ys)
  case Nil
  then show ?case by (simp add: descending_def)
next
  case (Cons y ys)
  have c: "SortCompare x y = quality_rank (quality y) - quality_rank (quality x)"
    using Cons.prems by (simp add: SortCompare_rank)
  show ?case
  proof (cases "SortCompare x y \<le> 0")
    case True
    with c Cons.prems show ?thesis by (auto simp: descending_def)
  next
    case False
    from Cons have "descending (insert_sorted x ys)" by (simp add: descending_def)
    with False c Cons.prems show ?thesis
      by (auto simp: descending_def set_insert_sorted)
  qed
qed

lemma descending_Array_sort:
  "\<forall>q \<in> set xs. quality q \<notin> set Object_prototype_members \<Longrightarrow> descending (Array_sort xs)"
proof (induction xs)
  case Nil
  show ?case by (simp add: Array_sort_def descending_def)
next
  case (Cons x xs)
  then have "descending (Array_sort xs)" by simp
  with Cons.prems show ?case
    using descending_insert_sorted[of x "Array_sort xs"]
    by (simp add: Array_sort_def set_Array_sort[unfolded Array_sort_def])
qed

lemma first_truthy_nonempty: "first_truthy xs = Some u \<Longrightarrow> u \<noteq> []"
  by (induction xs rule: first_truthy.induct) (auto split: if_splits)

lemma pool_urls_truthy:
  "q \<in> set (primary_js v @ secondary_js v) \<Longrightarrow> url q \<noteq> []"
  by (auto simp: primary_js_def secondary_js_def bit_rate_entry_js_def
           split: option.splits dest: first_truthy_nonempty first_truthy_nonempty[OF sym])

lemma uniqueQualities_set:
  "set (uniqueQualities v) = set (dedupe [] (primary_js v @ secondary_js v))"
  by (simp add: uniqueQualities_def set_Array_sort)

lemma uniqueQualities_truthy: "q \<in> set (uniqueQualities v) \<Longrightarrow> url q \<noteq> []"
  using dedupe_subset[of "[]" "primary_js v @ secondary_js v"] pool_urls_truthy[of q v]
  by (auto simp: uniqueQualities_set)

lemma hd_js_truthy:
  assumes "\<forall>q \<in> set qs. url q \<noteq> []"
  shows "hd_js qs = (case find is_hd_label qs of
                      Some q \<Rightarrow> HdUrl (url q)
                    | None \<Rightarrow> (case qs of [] \<Rightarrow> HdNull | q # _ \<Rightarrow> HdUrl (url q)))"
proof (cases "find is_hd_label qs")
  case None
  then show ?thesis using assms by (cases qs) (simp_all add: hd_js_def first_of_def)
next
  case (Some q)
  then have "q \<in> set qs" by (auto simp: find_Some_iff)
  with assms have "url q \<noteq> []" by simp
  with Some show ?thesis by (simp add: hd_js_def)
qed

lemma formatResponse_js_video:
  assumes "the_video (formatResponse_js item) = Some v"
  shows "noWatermark v = uniqueQualities (case item_video item of Some x \<Rightarrow> x | None \<Rightarrow> empty_video)"
    and "hd v = hd_js (noWatermark v)"
  using assms
  by (auto simp: the_video_def formatResponse_js_def Let_def split: if_splits)

text \<open>
  The list \<open>noWatermark\<close> of the JS handler has no URL twice, holds exactly the URLs of
  the candidates, each with the entry that came first, and, when no label names an
  inherited member, is in descending order of rank.
\<close>

lemma formatResponse_js_noWatermark:
  assumes "the_video (formatResponse_js item) = Some v"
    and "videoInfo = (case item_video item of Some x \<Rightarrow> x | None \<Rightarrow> empty_video)"
  shows "distinct (map url (noWatermark v))"
    and "url ` set (noWatermark v) = url ` set (primary_js videoInfo @ secondary_js videoInfo)"
    and "\<forall>q \<in> set (noWatermark v).
           find (\<lambda>p. url p = url q) (primary_js videoInfo @ secondary_js videoInfo) = Some q"
    and "(\<forall>q \<in> set (primary_js videoInfo @ secondary_js videoInfo).
            quality q \<notin> set Object_prototype_members) \<longrightarrow> descending (noWatermark v)"
proof -
  let ?pool = "primary_js videoInfo @ secondary_js videoInfo"
  have nw: "noWatermark v = Array_sort (dedupe [] ?pool)"
    using formatResponse_js_video(1)[OF assms(1)] assms(2) by (simp add: uniqueQualities_def)
  show "distinct (map url (noWatermark v))"
    unfolding nw using dedupe_urls[of "[]" ?pool] by (simp add: distinct_Array_sort)
  show "url ` set (noWatermark v) = url ` set ?pool"
    unfolding nw using dedupe_urls[of "[]" ?pool] by (simp add: set_Array_sort image_Un)
  show "\<forall>q \<in> set (noWatermark v). find (\<lambda>p. url p = url q) ?pool = Some q"
    unfolding nw using dedupe_first[of _ "[]" ?pool] by (simp add: set_Array_sort)
  show "(\<forall>q \<in> set ?pool. quality q \<notin> set Object_prototype_members) \<longrightarrow> descending (noWatermark v)"
    unfolding nw using dedupe_subset[of "[]" ?pool] by (auto intro!: descending_Array_sort)
qed

text \<open>
  In the JS handler \<open>hd\<close> is the URL of the first entry of \<open>noWatermark\<close> whose label
  contains 720 or 1080, else that of the first entry, else \<open>null\<close>.
\<close>

lemma formatResponse_js_hd:
  assumes "the_video (formatResponse_js item) = Some v"
  shows "hd v = (case find is_hd_label (noWatermark v) of
                   Some q \<Rightarrow> HdUrl (url q)
                 | None \<Rightarrow> (case noWatermark v of [] \<Rightarrow> HdNull | q # _ \<Rightarrow> HdUrl (url q)))"
proof -
  have "\<forall>q \<in> set (noWatermark v). url q \<noteq> []"
    using formatResponse_js_video(1)[OF assms] uniqueQualities_truthy by simp
  from hd_js_truthy[OF this] formatResponse_js_video(2)[OF assms] show ?thesis by simp
qed

text \<open>
  In the JS handler the type decides which of \<open>video\<close> and \<open>images\<close> is present.
\<close>

lemma formatResponse_js_type:
  assumes "formatResponse_js item = Inr r"
  shows "\<exists>d. data r = Some d \<and>
           (case type d of
              type_images \<Rightarrow> images_section d \<noteq> None \<and> video_section d = None
            | type_video \<Rightarrow> video_section d \<noteq> None \<and> images_section d = None)"
  using assms by (auto simp: formatResponse_js_def Let_def split: if_splits)

text \<open>The JS handler returns no image entry with an empty URL.\<close>

lemma formatResponse_js_images:
  assumes "the_images (formatResponse_js item) = Some imgs"
  shows "\<forall>img \<in> set imgs. image_url img \<noteq> []"
  using assms
  by (auto simp: the_images_def formatResponse_js_def images_js_def Let_def split: if_splits)

text \<open>
  In the TypeScript variants each display statistic is \<open>formatNumber\<close> of the raw one.
\<close>

lemma statistics_ts_consistent:
  "likes (statistics_ts item) = formatNumber (likesRaw (statistics_ts item))"
  "comments (statistics_ts item) = formatNumber (commentsRaw (statistics_ts item))"
  "shares (statistics_ts item) = formatNumber (sharesRaw (statistics_ts item))"
  "views (statistics_ts item) = formatNumber (viewsRaw (statistics_ts item))"
  "likes (statistics_lib item) = formatNumber (likesRaw (statistics_lib item))"
  "comments (statistics_lib item) = formatNumber (commentsRaw (statistics_lib item))"
  "shares (statistics_lib item) = formatNumber (sharesRaw (statistics_lib item))"
  "views (statistics_lib item) = formatNumber (viewsRaw (statistics_lib item))"
  by (simp_all add: statistics_ts_def statistics_lib_def Let_def)

lemma well_formed_error [simp]: "well_formed (error_response m)"
  by (simp add: well_formed_def error_response_def)

lemma formatResponse_js_well_formed: "formatResponse_js item = Inr r \<Longrightarrow> well_formed r"
  by (auto simp: formatResponse_js_def well_formed_def Let_def split: if_splits)

lemma formatResponse_ts_well_formed: "formatResponse_ts item = Inr r \<Longrightarrow> well_formed r"
  by (auto simp: formatResponse_ts_def well_formed_def Let_def split: if_splits)

lemma assemble_lib_well_formed: "assemble_lib item = Inr r \<Longrightarrow> well_formed r"
  by (auto simp: assemble_lib_def well_formed_def Let_def split: if_splits)

lemma from_container_js_well_formed: "from_container_js c = Some r \<Longrightarrow> well_formed r"
  by (auto simp: from_container_js_def split: container.splits option.splits sum.splits
           dest: formatResponse_js_well_formed)

lemma first_some_cases: "first_some xs = Some r \<Longrightarrow> Some r \<in> set xs"
  by (induction xs rule: first_some.induct) auto

lemma fetchFromWebPage_js_well_formed:
  "fetchFromWebPage_js net u = (Returned (Some r), calls) \<Longrightarrow> well_formed r"
  by (auto simp: fetchFromWebPage_js_def split: fetched.splits
           dest!: first_some_cases dest: from_container_js_well_formed from_container_js_well_formed[OF sym])

lemma api_loop_js_well_formed:
  "api_loop_js net us = (Returned (Some r), calls) \<Longrightarrow> well_formed r"
proof (induction us arbitrary: calls)
  case Nil
  then show ?case by simp
next
  case (Cons a us)
  then show ?case
    by (auto split: fetched.splits option.splits sum.splits prod.splits
             dest: formatResponse_js_well_formed)
qed

lemma api_loop_js_returns: "\<exists>res calls. api_loop_js net us = (Returned res, calls)"
  by (induction us) (auto split: fetched.splits option.splits sum.splits prod.splits)

lemma fetchFromEmbed_js_well_formed:
  "fetchFromEmbed_js net videoId = (Returned (Some r), calls) \<Longrightarrow> well_formed r"
  by (auto simp: fetchFromEmbed_js_def Let_def split: fetched.splits
           dest: from_container_js_well_formed)

lemma fetchFromWebPage_ts_well_formed:
  "fetchFromWebPage_ts net u = (Returned (Some r), calls) \<Longrightarrow> well_formed r"
  by (auto simp: fetchFromWebPage_ts_def
           split: fetched.splits container.splits option.splits sum.splits
           dest: formatResponse_ts_well_formed)

lemma fetchFromApi_ts_well_formed:
  "fetchFromApi_ts net videoId = (Returned (Some r), calls) \<Longrightarrow> well_formed r"
  by (auto simp: fetchFromApi_ts_def Let_def split: fetched.splits option.splits sum.splits
           dest: formatResponse_ts_well_formed)

lemma run_strategies_well_formed:
  assumes "\<forall>s \<in> set ss. \<forall>r calls. s () = (Returned (Some r), calls) \<longrightarrow> well_formed r"
    and "well_formed exhausted"
  shows "well_formed (fst (run_strategies ss exhausted))"
  using assms
proof (induction ss)
  case Nil
  then show ?case by simp
next
  case (Cons s ss)
  then have "well_formed (fst (run_strategies ss exhausted))" by simp
  moreover obtain r' later where rs: "run_strategies ss exhausted = (r', later)"
    by (cases "run_strategies ss exhausted")
  ultimately have ih: "well_formed r'" by simp
  obtain res calls where sc: "s () = (res, calls)" by (cases "s ()")
  show ?case
  proof (cases res)
    case (Threw e)
    with sc ih rs show ?thesis by simp
  next
    case (Returned x)
    show ?thesis
    proof (cases x)
      case None
      with sc Returned ih rs show ?thesis by simp
    next
      case (Some r)
      with sc Returned Cons.prems(1) have "well_formed r" by simp
      with sc Returned Some ih rs show ?thesis by simp
    qed
  qed
qed

lemma run_strategies_failed:
  assumes "\<forall>s \<in> set ss. failed (fst (s ()))"
  shows "run_strategies ss exhausted = (exhausted, concat (map (\<lambda>s. snd (s ())) ss))"
  using assms
proof (induction ss)
  case Nil
  show ?case by simp
next
  case (Cons s ss)
  then have ih: "run_strategies ss exhausted = (exhausted, concat (map (\<lambda>s. snd (s ())) ss))"
    by simp
  obtain res calls where sc: "s () = (res, calls)" by (cases "s ()")
  with Cons.prems have "failed res" by simp
  then have "(case res of Returned (Some result) \<Rightarrow>
                 if status result = success then Some result else None | _ \<Rightarrow> None) = None"
    by (auto simp: failed_def split: outcome.splits option.splits)
  with sc ih show ?case by simp
qed

section \<open>Properties of the orchestrator\<close>

lemma scrapeTikTok_js_returns:
  "\<exists>r calls. scrapeTikTok_js net u = (Returned r, calls) \<and> well_formed r"
proof (cases "extractVideoId_js u")
  case None
  then show ?thesis by (simp add: scrapeTikTok_js_def scrapeTikTok_body_js_def)
next
  case (Some videoId)
  let ?ss = "[\<lambda>_. fetchFromWebPage_js net u, \<lambda>_. fetchFromApi_js net videoId,
              \<lambda>_. fetchFromEmbed_js net videoId]"
  have "\<forall>s \<in> set ?ss. \<forall>r calls. s () = (Returned (Some r), calls) \<longrightarrow> well_formed r"
    using fetchFromWebPage_js_well_formed api_loop_js_well_formed fetchFromEmbed_js_well_formed
    by (auto simp: fetchFromApi_js_def)
  then have "well_formed (fst (run_strategies ?ss (error_response all_failed_js)))"
    by (rule run_strategies_well_formed) simp
  moreover obtain r calls where "run_strategies ?ss (error_response all_failed_js) = (r, calls)"
    by (cases "run_strategies ?ss (error_response all_failed_js)")
  ultimately show ?thesis using Some
    by (simp add: scrapeTikTok_js_def scrapeTikTok_body_js_def)
qed

lemma scrapeTikTok_ts_returns:
  "\<exists>r calls. scrapeTikTok_ts net u = (Returned r, calls) \<and> well_formed r"
proof (cases "extractVideoId_ts u")
  case None
  then show ?thesis by (simp add: scrapeTikTok_ts_def scrapeTikTok_body_ts_def catch_ts_def)
next
  case (Some videoId)
  let ?ss = "[\<lambda>_. fetchFromWebPage_ts net u, \<lambda>_. fetchFromApi_ts net videoId,
              \<lambda>_. fetchFromEmbed_ts net videoId]"
  have "\<forall>s \<in> set ?ss. \<forall>r calls. s () = (Returned (Some r), calls) \<longrightarrow> well_formed r"
    using fetchFromWebPage_ts_well_formed fetchFromApi_ts_well_formed
    by (auto simp: fetchFromEmbed_ts_def)
  then have "well_formed (fst (run_strategies ?ss (error_response all_failed_ts)))"
    by (rule run_strategies_well_formed) simp
  moreover obtain r calls where "run_strategies ?ss (error_response all_failed_ts) = (r, calls)"
    by (cases "run_strategies ?ss (error_response all_failed_ts)")
  ultimately show ?thesis using Some
    by (simp add: scrapeTikTok_ts_def scrapeTikTok_body_ts_def catch_ts_def)
qed

lemma scrapeTikTok_lib_returns:
  "\<exists>r calls. scrapeTikTok_lib net u = (Returned r, calls) \<and> well_formed r"
  by (auto simp: scrapeTikTok_lib_def scrapeTikTok_body_lib_def catch_ts_def
           split: option.splits fetched.splits container.splits sum.splits exn.splits
           dest: assemble_lib_well_formed)

text \<open>
  Claim C3. Whatever the URL and whatever the network and the parsers deliver, the
  orchestrator returns and does not throw, in all three variants; what it returns is a
  well-formed envelope: a success has \<open>data\<close> and no \<open>message\<close>, an error has a
  \<open>message\<close> and no \<open>data\<close>.
\<close>

theorem scrapeTikTok_never_throws:
  "(\<exists>r calls. scrapeTikTok_js net u = (Returned r, calls) \<and> well_formed r)
   \<and> (\<exists>r calls. scrapeTikTok_ts net' u = (Returned r, calls) \<and> well_formed r)
   \<and> (\<exists>r calls. scrapeTikTok_lib net' u = (Returned r, calls) \<and> well_formed r)"
  using scrapeTikTok_js_returns scrapeTikTok_ts_returns scrapeTikTok_lib_returns by blast

text \<open>
  Claim C4. When an identifier was extracted and each of the three strategies returns
  \<open>null\<close> or throws, the orchestrator of the JS handler and that of the multi-strategy
  library return an error envelope whose message is the one fixed text that begins
  \<open>All extraction methods failed\<close>. The message is a constant of the variant: it does
  not depend on the errors the strategies met.
\<close>

theorem all_strategies_failed:
  "(extractVideoId_js u = Some videoId \<and> failed (fst (fetchFromWebPage_js net u))
      \<and> failed (fst (fetchFromApi_js net videoId)) \<and> failed (fst (fetchFromEmbed_js net videoId))
    \<longrightarrow> fst (scrapeTikTok_js net u) =
          Returned \<lparr>status = error,
                    message = Some ''All extraction methods failed. Video may be private, deleted, or region-blocked.'',
                    data = None\<rparr>)
   \<and> (extractVideoId_ts u = Some videoId' \<and> failed (fst (fetchFromWebPage_ts net' u))
      \<and> failed (fst (fetchFromApi_ts net' videoId')) \<and> failed (fst (fetchFromEmbed_ts net' videoId'))
    \<longrightarrow> fst (scrapeTikTok_ts net' u) =
          Returned \<lparr>status = error,
                    message = Some ''All extraction methods failed. Video may be private or region-blocked.'',
                    data = None\<rparr>)"
proof (intro conjI impI)
  assume h: "extractVideoId_js u = Some videoId \<and> failed (fst (fetchFromWebPage_js net u))
      \<and> failed (fst (fetchFromApi_js net videoId)) \<and> failed (fst (fetchFromEmbed_js net videoId))"
  let ?ss = "[\<lambda>_. fetchFromWebPage_js net u, \<lambda>_. fetchFromApi_js net videoId,
              \<lambda>_. fetchFromEmbed_js net videoId]"
  have "\<forall>s \<in> set ?ss. failed (fst (s ()))" using h by simp
  from run_strategies_failed[OF this, of "error_response all_failed_js"] h
  show "fst (scrapeTikTok_js net u) =
          Returned \<lparr>status = error,
                    message = Some ''All extraction methods failed. Video may be private, deleted, or region-blocked.'',
                    data = None\<rparr>"
    by (simp add: scrapeTikTok_js_def scrapeTikTok_body_js_def error_response_def all_failed_js_def)
next
  assume h: "extractVideoId_ts u = Some videoId' \<and> failed (fst (fetchFromWebPage_ts net' u))
      \<and> failed (fst (fetchFromApi_ts net' videoId')) \<and> failed (fst (fetchFromEmbed_ts net' videoId'))"
  let ?ss = "[\<lambda>_. fetchFromWebPage_ts net' u, \<lambda>_. fetchFromApi_ts net' videoId',
              \<lambda>_. fetchFromEmbed_ts net' videoId']"
  have "\<forall>s \<in> set ?ss. failed (fst (s ()))" using h by simp
  from run_strategies_failed[OF this, of "error_response all_failed_ts"] h
  show "fst (scrapeTikTok_ts net' u) =
          Returned \<lparr>status = error,
                    message = Some ''All extraction methods failed. Video may be private or region-blocked.'',
                    data = None\<rparr>"
    by (simp add: scrapeTikTok_ts_def scrapeTikTok_body_ts_def catch_ts_def error_response_def
                  all_failed_ts_def)
qed

text \<open>
  Claim C5. When the Identifier Extractor finds no identifier, the orchestrator returns
  an error envelope and the list of requests is empty: no strategy ran. This holds for
  each variant with its own extractor.
\<close>

theorem invalid_url_no_request:
  "(extractVideoId_js u = None \<longrightarrow>
      scrapeTikTok_js net u =
        (Returned \<lparr>status = error, message = Some ''Invalid TikTok URL format'', data = None\<rparr>, []))
   \<and> (extractVideoId_ts u = None \<longrightarrow>
      scrapeTikTok_ts net' u =
        (Returned \<lparr>status = error, message = Some ''Invalid TikTok URL format'', data = None\<rparr>, []))
   \<and> (extractVideoId_lib u = None \<longrightarrow>
      scrapeTikTok_lib net' u =
        (Returned \<lparr>status = error, message = Some ''Invalid TikTok URL'', data = None\<rparr>, []))"
  by (simp add: scrapeTikTok_js_def scrapeTikTok_body_js_def scrapeTikTok_ts_def
                scrapeTikTok_body_ts_def scrapeTikTok_lib_def scrapeTikTok_body_lib_def
                catch_ts_def error_response_def)

lemmas rx_eval = extractVideoId_js_def extractVideoId_ts_def extractVideoId_lib_def patterns_js_def
  patterns_ts_def patterns_lib_def run_length_def in_class_def is_word_def is_digit_def
  is_line_terminator_def String_includes_def

lemma extractVideoId_examples:
  "extractVideoId_js ''https://www.tiktok.com/@u/video/123'' = Some ''123''"
  "extractVideoId_ts ''https://www.tiktok.com/@u/video/123'' = Some ''123''"
  "extractVideoId_js ''https://example.com/watch'' = None"
  "extractVideoId_ts ''https://example.com/watch'' = None"
  "extractVideoId_lib ''https://example.com/watch'' = None"
  by (simp_all add: rx_eval)

lemma unreachable_failed:
  "failed (fst (fetchFromWebPage_js unreachable u))"
  "failed (fst (fetchFromApi_js unreachable videoId))"
  "failed (fst (fetchFromEmbed_js unreachable videoId))"
  "failed (fst (fetchFromWebPage_ts unreachable u))"
  "failed (fst (fetchFromApi_ts unreachable videoId))"
  "failed (fst (fetchFromEmbed_ts unreachable videoId))"
  by (simp_all add: failed_def unreachable_def fetchFromWebPage_js_def fetchFromApi_js_def
        apiUrls_def fetchFromEmbed_js_def fetchFromWebPage_ts_def fetchFromApi_ts_def
        fetchFromEmbed_ts_def Let_def)

theorem all_strategies_failed_witness:
  "extractVideoId_js ''https://www.tiktok.com/@u/video/123'' = Some ''123''
   \<and> failed (fst (fetchFromWebPage_js unreachable ''https://www.tiktok.com/@u/video/123''))
   \<and> failed (fst (fetchFromApi_js unreachable ''123''))
   \<and> failed (fst (fetchFromEmbed_js unreachable ''123''))
   \<and> fst (scrapeTikTok_js unreachable ''https://www.tiktok.com/@u/video/123'') =
       Returned \<lparr>status = error,
                 message = Some ''All extraction methods failed. Video may be private, deleted, or region-blocked.'',
                 data = None\<rparr>
   \<and> extractVideoId_ts ''https://www.tiktok.com/@u/video/123'' = Some ''123''
   \<and> failed (fst (fetchFromWebPage_ts unreachable ''https://www.tiktok.com/@u/video/123''))
   \<and> failed (fst (fetchFromApi_ts unreachable ''123''))
   \<and> failed (fst (fetchFromEmbed_ts unreachable ''123''))
   \<and> fst (scrapeTikTok_ts unreachable ''https://www.tiktok.com/@u/video/123'') =
       Returned \<lparr>status = error,
                 message = Some ''All extraction methods failed. Video may be private or region-blocked.'',
                 data = None\<rparr>"
proof -
  let ?u = "''https://www.tiktok.com/@u/video/123''"
  have js: "extractVideoId_js ?u = Some ''123'' \<and> failed (fst (fetchFromWebPage_js unreachable ?u))
      \<and> failed (fst (fetchFromApi_js unreachable ''123''))
      \<and> failed (fst (fetchFromEmbed_js unreachable ''123''))"
    by (intro conjI extractVideoId_examples unreachable_failed)
  have ts: "extractVideoId_ts ?u = Some ''123'' \<and> failed (fst (fetchFromWebPage_ts unreachable ?u))
      \<and> failed (fst (fetchFromApi_ts unreachable ''123''))
      \<and> failed (fst (fetchFromEmbed_ts unreachable ''123''))"
    by (intro conjI extractVideoId_examples unreachable_failed)
  note t = all_strategies_failed[of ?u "''123''" unreachable "''123''" unreachable]
  from t[THEN conjunct1, rule_format, OF js] t[THEN conjunct2, rule_format, OF ts] js ts
  show ?thesis by (intro conjI) (simp_all only:)
qed

theorem invalid_url_no_request_witness:
  "extractVideoId_js ''https://example.com/watch'' = None
   \<and> scrapeTikTok_js unreachable ''https://example.com/watch'' =
       (Returned \<lparr>status = error, message = Some ''Invalid TikTok URL format'', data = None\<rparr>, [])
   \<and> extractVideoId_ts ''https://example.com/watch'' = None
   \<and> scrapeTikTok_ts unreachable ''https://example.com/watch'' =
       (Returned \<lparr>status = error, message = Some ''Invalid TikTok URL format'', data = None\<rparr>, [])
   \<and> extractVideoId_lib ''https://example.com/watch'' = None
   \<and> scrapeTikTok_lib unreachable ''https://example.com/watch'' =
       (Returned \<lparr>status = error, message = Some ''Invalid TikTok URL'', data = None\<rparr>, [])"
proof -
  let ?u = "''https://example.com/watch''"
  note t = invalid_url_no_request[of ?u unreachable unreachable]
  from t[THEN conjunct1, rule_format, OF extractVideoId_examples(3)]
    t[THEN conjunct2, THEN conjunct1, rule_format, OF extractVideoId_examples(4)]
    t[THEN conjunct2, THEN conjunct2, rule_format, OF extractVideoId_examples(5)]
    extractVideoId_examples(3,4,5)
  show ?thesis by (intro conjI) (simp_all only:)
qed

section \<open>The assemblers on concrete records\<close>

lemmas empty_defs = empty_item_def empty_bit_rate_def empty_bitrateInfo_def empty_image_def
  empty_video_def empty_stats_def

lemmas assembler_defs = formatResponse_js_def formatResponse_ts_def assemble_lib_def
  isImagePost_js_def isImagePost_ts_def non_empty_def first_of_def second_of_def
  createdAt_throws_js_def toISOString_throws_def n_or_def s_or_def
  primary_js_def secondary_js_def bit_rate_entry_js_def withWatermark_js_def
  primary_ts_def secondary_ts_def bit_rate_entry_ts_def withWatermark_ts_def
  primary_lib_def secondary_lib_def bitrateInfo_entry_lib_def withWatermark_lib_def
  uniqueQualities_def Array_sort_def SortCompare_def comparefn_def score_def literal_get_def
  qualityOrder_def Object_prototype_members_def
  hd_js_def hd_ts_def is_hd_label_def String_includes_def
  image_js_def image_ts_def image_lib_def images_js_def
  template_number_def Number_toString_def Number_toString_positive_def digit_char_def Let_def

text \<open>
  Claim C1 says that \<open>noWatermark\<close> holds each URL once and is in descending order of
  rank. The JS handler does so (\<open>formatResponse_js_noWatermark\<close>). The TypeScript
  assemblers neither remove repeats nor sort: on a record whose play address is also
  the first rung of the bitrate ladder, the multi-strategy library lists that URL
  twice, and \<open>src/lib/tiktok-scraper.ts\<close> lists it twice with the rank rising; the JS
  handler on the same record lists it once.
\<close>

theorem noWatermark_repeats_url:
  "labelled_urls (the_video (formatResponse_ts repeated_url_item)) =
     Some [(''https://v16.example/a.mp4'', ''540p''), (''https://v16.example/a.mp4'', ''720x1280''),
           (''https://v16.example/b.mp4'', ''1080x1920'')]
   \<and> labelled_urls (the_video (assemble_lib repeated_url_item_lib)) =
     Some [(''https://v16.example/a.mp4'', ''480p''), (''https://v16.example/a.mp4'', ''1080p'')]
   \<and> labelled_urls (the_video (formatResponse_js repeated_url_item)) =
     Some [(''https://v16.example/a.mp4'', ''540p''), (''https://v16.example/b.mp4'', ''1080x1920'')]"
  by (simp add: repeated_url_item_def repeated_url_item_lib_def labelled_urls_def the_video_def
                empty_defs assembler_defs)

text \<open>
  Claim C2 says that \<open>hd\<close> is the URL of the first entry of the de-duplicated pool with
  a label containing 720 or 1080, else that of the first entry, else \<open>null\<close>. The JS
  handler does so (\<open>formatResponse_js_hd\<close>). The TypeScript assemblers leave \<open>hd\<close>
  \<open>undefined\<close>, not \<open>null\<close>, when the pool is empty, and they search the pool with its
  repeats: on the record with the repeated play address they take the repeated URL,
  where the de-duplicated pool gives the other one.
\<close>

theorem hd_differs_from_claim:
  "map_option hd (the_video (formatResponse_ts no_address_item)) = Some HdUndefined
   \<and> map_option hd (the_video (assemble_lib no_address_item)) = Some HdUndefined
   \<and> map_option hd (the_video (formatResponse_js no_address_item)) = Some HdNull
   \<and> map_option hd (the_video (formatResponse_ts repeated_url_item)) =
       Some (HdUrl ''https://v16.example/a.mp4'')
   \<and> map_option hd (the_video (formatResponse_js repeated_url_item)) =
       Some (HdUrl ''https://v16.example/b.mp4'')"
  by (simp add: no_address_item_def repeated_url_item_def the_video_def empty_defs assembler_defs)

text \<open>
  Claim C6 says that a record of type \<open>images\<close> has its \<open>images\<close> field populated and
  no \<open>video\<close> field, and a record of type \<open>video\<close> the reverse (populated is read as
  present: the field was assigned, possibly with empty lists). The JS handler does so
  (\<open>formatResponse_js_type\<close>). The TypeScript assemblers build the \<open>video\<close> field only
  when the upstream record has a \<open>video\<close> object: on a record without one the type is
  \<open>video\<close> and both fields are absent.
\<close>

theorem video_type_without_video:
  "the_type (formatResponse_ts empty_item) = Some type_video
   \<and> the_video (formatResponse_ts empty_item) = None
   \<and> the_images (formatResponse_ts empty_item) = None
   \<and> the_type (assemble_lib empty_item) = Some type_video
   \<and> the_video (assemble_lib empty_item) = None
   \<and> the_images (assemble_lib empty_item) = None
   \<and> the_type (formatResponse_js empty_item) = Some type_video
   \<and> the_video (formatResponse_js empty_item) =
       Some \<lparr>noWatermark = [], withWatermark = [], hd = HdNull\<rparr>"
  by (simp add: the_type_def the_video_def the_images_def empty_defs assembler_defs)

text \<open>
  Claim C7 says that an image entry whose URL resolves to the empty string is dropped.
  The JS handler does so (\<open>formatResponse_js_images\<close>). The TypeScript assemblers map
  the entries and filter nothing: an entry without a URL stays, with \<open>url\<close> empty.
\<close>

theorem image_with_empty_url:
  "the_images (formatResponse_ts blank_image_item) =
     Some [\<lparr>image_url = [], image_width = 1080, image_height = 1920\<rparr>]
   \<and> the_images (assemble_lib blank_image_item) =
     Some [\<lparr>image_url = [], image_width = 1080, image_height = 1920\<rparr>]
   \<and> the_images (formatResponse_js blank_image_item) = Some []"
  by (simp add: blank_image_item_def the_images_def empty_defs assembler_defs)

text \<open>
  Claim C10 says that each display statistic is \<open>formatNumber\<close> of the raw one. The
  TypeScript assemblers do so (\<open>statistics_ts_consistent\<close>). In the JS handler the
  display value is \<open>formatNumber(v)\<close> and the raw value \<open>parseInt(v)\<close>; \<open>formatNumber\<close>
  gives \<open>0\<close> as soon as \<open>isNaN(v)\<close>, while \<open>parseInt\<close> reads a leading number. For the
  like count \<open>"1.2K"\<close> the display value is \<open>0\<close> and the raw value 1, which formats
  as \<open>1\<close>.
\<close>

theorem display_count_inconsistent:
  "map_option likes (the_statistics (formatResponse_js display_count_item)) = Some ''0''
   \<and> map_option likesRaw (the_statistics (formatResponse_js display_count_item)) = Some (JNum 1)
   \<and> formatNumber_js (JNum 1) = ''1''"
  by (simp add: display_count_item_def the_statistics_def empty_defs assembler_defs
                statistics_js_def js_or_def truthy_def number_of_def
                formatNumber_js_def isNaN_def is_numeric_string_def is_non_decimal_def
                is_unsigned_decimal_def is_exponent_part_def is_white_space_def is_digit_def
                is_hex_digit_def parseInt_def ToString_def parseInt_string_def radix_value_def
                digit_value_def place_def nearest_double_def formatNumber_def)

theorem display_count_inconsistent_witness:
  "map_option likes (the_statistics (formatResponse_js display_count_item)) \<noteq>
   map_option formatNumber_js
     (map_option likesRaw (the_statistics (formatResponse_js display_count_item)))"
  using display_count_inconsistent by (simp only: option.map list.inject char.inject) simp

end
